theory Spec2Isabelle
  imports Main "HOL-Library.Word"
begin

unbundle bit_operations_syntax

section \<open>The keymaster 4.0 tag helpers (keymaster\_tags.h)\<close>

text \<open>
  The header is template metaprogramming over three types that the HAL definition
  declares: \<open>TagType\<close>, \<open>Tag\<close> and \<open>KeyParameter\<close>. What the C++ compiler decides
  (overload resolution, template specialisation, \<open>static_assert\<close>) is a function
  returning a \<open>build_error\<close> in the model; what runs is a function on values.
\<close>

subsection \<open>TagType and Tag\<close>

type_synonym TagType = "32 word"
type_synonym Tag = "32 word"

text \<open>
  Modelled from the spec: the enumeration \<open>TagType\<close> is declared in the keymaster 4.0
  HAL definition, which the header includes and which is not among the source files.
  The spec names the categories (boolean presence, unsigned 32, unsigned 32 repeated,
  unsigned 64, unsigned 64 repeated, date-time, enumerated, byte blob, big number) and
  says they sit in the top bits of a tag's encoding; \<open>typeFromTag\<close> masks with
  \<open>0xf0000000\<close>, so a category is a multiple of \<open>2 ^ 28\<close>. The numbers are the ones
  of the Android keymaster HAL (\<open>ENUM = 1 << 28\<close>, \<dots>, \<open>ULONG_REP = 10 << 28\<close>).
\<close>

definition TagType_INVALID :: TagType where "TagType_INVALID = 0x00000000"
definition TagType_ENUM :: TagType where "TagType_ENUM = 0x10000000"
definition TagType_ENUM_REP :: TagType where "TagType_ENUM_REP = 0x20000000"
definition TagType_UINT :: TagType where "TagType_UINT = 0x30000000"
definition TagType_UINT_REP :: TagType where "TagType_UINT_REP = 0x40000000"
definition TagType_ULONG :: TagType where "TagType_ULONG = 0x50000000"
definition TagType_DATE :: TagType where "TagType_DATE = 0x60000000"
definition TagType_BOOL :: TagType where "TagType_BOOL = 0x70000000"
definition TagType_BIGNUM :: TagType where "TagType_BIGNUM = 0x80000000"
definition TagType_BYTES :: TagType where "TagType_BYTES = 0x90000000"
definition TagType_ULONG_REP :: TagType where "TagType_ULONG_REP = 0xA0000000"

lemmas TagType_defs =
  TagType_INVALID_def TagType_ENUM_def TagType_ENUM_REP_def TagType_UINT_def
  TagType_UINT_REP_def TagType_ULONG_def TagType_DATE_def TagType_BOOL_def
  TagType_BIGNUM_def TagType_BYTES_def TagType_ULONG_REP_def

definition TagType_enumerators :: "TagType list" where
  "TagType_enumerators =
     [TagType_INVALID, TagType_ENUM, TagType_ENUM_REP, TagType_UINT, TagType_UINT_REP,
      TagType_ULONG, TagType_DATE, TagType_BOOL, TagType_BIGNUM, TagType_BYTES,
      TagType_ULONG_REP]"

text \<open>
  Modelled from the spec: the enumeration \<open>Tag\<close> is declared in the same HAL definition
  and is not among the source files. The header names 55 enumerators: the 47 of its
  \<open>DECLARE_TYPED_TAG\<close> lines and the 8 \<open>ATTESTATION_ID_*\<close> case labels of
  \<open>operator==\<close>. Each is \<open>TagType | number\<close>; the numbers are the ones of the Android
  keymaster 4.0 HAL. The library is built with \<open>-Wall -Wextra -Werror\<close>
  (Android.bp), and the switch of \<open>operator==\<close> has no \<open>default\<close> label, so the
  enumeration has no enumerator that the switch does not name.
\<close>

definition Tag_INVALID :: Tag where "Tag_INVALID = TagType_INVALID OR 0"
definition Tag_PURPOSE :: Tag where "Tag_PURPOSE = TagType_ENUM_REP OR 1"
definition Tag_ALGORITHM :: Tag where "Tag_ALGORITHM = TagType_ENUM OR 2"
definition Tag_KEY_SIZE :: Tag where "Tag_KEY_SIZE = TagType_UINT OR 3"
definition Tag_BLOCK_MODE :: Tag where "Tag_BLOCK_MODE = TagType_ENUM_REP OR 4"
definition Tag_DIGEST :: Tag where "Tag_DIGEST = TagType_ENUM_REP OR 5"
definition Tag_PADDING :: Tag where "Tag_PADDING = TagType_ENUM_REP OR 6"
definition Tag_CALLER_NONCE :: Tag where "Tag_CALLER_NONCE = TagType_BOOL OR 7"
definition Tag_MIN_MAC_LENGTH :: Tag where "Tag_MIN_MAC_LENGTH = TagType_UINT OR 8"
definition Tag_EC_CURVE :: Tag where "Tag_EC_CURVE = TagType_ENUM OR 10"
definition Tag_RSA_PUBLIC_EXPONENT :: Tag where "Tag_RSA_PUBLIC_EXPONENT = TagType_ULONG OR 200"
definition Tag_INCLUDE_UNIQUE_ID :: Tag where "Tag_INCLUDE_UNIQUE_ID = TagType_BOOL OR 202"
definition Tag_BLOB_USAGE_REQUIREMENTS :: Tag where
  "Tag_BLOB_USAGE_REQUIREMENTS = TagType_ENUM OR 301"
definition Tag_BOOTLOADER_ONLY :: Tag where "Tag_BOOTLOADER_ONLY = TagType_BOOL OR 302"
definition Tag_ROLLBACK_RESISTANCE :: Tag where "Tag_ROLLBACK_RESISTANCE = TagType_BOOL OR 303"
definition Tag_HARDWARE_TYPE :: Tag where "Tag_HARDWARE_TYPE = TagType_ENUM OR 304"
definition Tag_ACTIVE_DATETIME :: Tag where "Tag_ACTIVE_DATETIME = TagType_DATE OR 400"
definition Tag_ORIGINATION_EXPIRE_DATETIME :: Tag where
  "Tag_ORIGINATION_EXPIRE_DATETIME = TagType_DATE OR 401"
definition Tag_USAGE_EXPIRE_DATETIME :: Tag where
  "Tag_USAGE_EXPIRE_DATETIME = TagType_DATE OR 402"
definition Tag_MIN_SECONDS_BETWEEN_OPS :: Tag where
  "Tag_MIN_SECONDS_BETWEEN_OPS = TagType_UINT OR 403"
definition Tag_MAX_USES_PER_BOOT :: Tag where "Tag_MAX_USES_PER_BOOT = TagType_UINT OR 404"
definition Tag_USER_ID :: Tag where "Tag_USER_ID = TagType_UINT OR 501"
definition Tag_USER_SECURE_ID :: Tag where "Tag_USER_SECURE_ID = TagType_ULONG_REP OR 502"
definition Tag_NO_AUTH_REQUIRED :: Tag where "Tag_NO_AUTH_REQUIRED = TagType_BOOL OR 503"
definition Tag_USER_AUTH_TYPE :: Tag where "Tag_USER_AUTH_TYPE = TagType_ENUM OR 504"
definition Tag_AUTH_TIMEOUT :: Tag where "Tag_AUTH_TIMEOUT = TagType_UINT OR 505"
definition Tag_ALLOW_WHILE_ON_BODY :: Tag where "Tag_ALLOW_WHILE_ON_BODY = TagType_BOOL OR 506"
definition Tag_TRUSTED_USER_PRESENCE_REQUIRED :: Tag where
  "Tag_TRUSTED_USER_PRESENCE_REQUIRED = TagType_BOOL OR 507"
definition Tag_TRUSTED_CONFIRMATION_REQUIRED :: Tag where
  "Tag_TRUSTED_CONFIRMATION_REQUIRED = TagType_BOOL OR 508"
definition Tag_UNLOCKED_DEVICE_REQUIRED :: Tag where
  "Tag_UNLOCKED_DEVICE_REQUIRED = TagType_BOOL OR 509"
definition Tag_APPLICATION_ID :: Tag where "Tag_APPLICATION_ID = TagType_BYTES OR 601"
definition Tag_APPLICATION_DATA :: Tag where "Tag_APPLICATION_DATA = TagType_BYTES OR 700"
definition Tag_CREATION_DATETIME :: Tag where "Tag_CREATION_DATETIME = TagType_DATE OR 701"
definition Tag_ORIGIN :: Tag where "Tag_ORIGIN = TagType_ENUM OR 702"
definition Tag_ROOT_OF_TRUST :: Tag where "Tag_ROOT_OF_TRUST = TagType_BYTES OR 704"
definition Tag_OS_VERSION :: Tag where "Tag_OS_VERSION = TagType_UINT OR 705"
definition Tag_OS_PATCHLEVEL :: Tag where "Tag_OS_PATCHLEVEL = TagType_UINT OR 706"
definition Tag_UNIQUE_ID :: Tag where "Tag_UNIQUE_ID = TagType_BYTES OR 707"
definition Tag_ATTESTATION_CHALLENGE :: Tag where
  "Tag_ATTESTATION_CHALLENGE = TagType_BYTES OR 708"
definition Tag_ATTESTATION_APPLICATION_ID :: Tag where
  "Tag_ATTESTATION_APPLICATION_ID = TagType_BYTES OR 709"
definition Tag_ATTESTATION_ID_BRAND :: Tag where
  "Tag_ATTESTATION_ID_BRAND = TagType_BYTES OR 710"
definition Tag_ATTESTATION_ID_DEVICE :: Tag where
  "Tag_ATTESTATION_ID_DEVICE = TagType_BYTES OR 711"
definition Tag_ATTESTATION_ID_PRODUCT :: Tag where
  "Tag_ATTESTATION_ID_PRODUCT = TagType_BYTES OR 712"
definition Tag_ATTESTATION_ID_SERIAL :: Tag where
  "Tag_ATTESTATION_ID_SERIAL = TagType_BYTES OR 713"
definition Tag_ATTESTATION_ID_IMEI :: Tag where
  "Tag_ATTESTATION_ID_IMEI = TagType_BYTES OR 714"
definition Tag_ATTESTATION_ID_MEID :: Tag where
  "Tag_ATTESTATION_ID_MEID = TagType_BYTES OR 715"
definition Tag_ATTESTATION_ID_MANUFACTURER :: Tag where
  "Tag_ATTESTATION_ID_MANUFACTURER = TagType_BYTES OR 716"
definition Tag_ATTESTATION_ID_MODEL :: Tag where
  "Tag_ATTESTATION_ID_MODEL = TagType_BYTES OR 717"
definition Tag_VENDOR_PATCHLEVEL :: Tag where "Tag_VENDOR_PATCHLEVEL = TagType_UINT OR 718"
definition Tag_BOOT_PATCHLEVEL :: Tag where "Tag_BOOT_PATCHLEVEL = TagType_UINT OR 719"
definition Tag_ASSOCIATED_DATA :: Tag where "Tag_ASSOCIATED_DATA = TagType_BYTES OR 1000"
definition Tag_NONCE :: Tag where "Tag_NONCE = TagType_BYTES OR 1001"
definition Tag_MAC_LENGTH :: Tag where "Tag_MAC_LENGTH = TagType_UINT OR 1003"
definition Tag_RESET_SINCE_ID_ROTATION :: Tag where
  "Tag_RESET_SINCE_ID_ROTATION = TagType_BOOL OR 1004"
definition Tag_CONFIRMATION_TOKEN :: Tag where "Tag_CONFIRMATION_TOKEN = TagType_BYTES OR 1005"

lemmas Tag_defs =
  Tag_INVALID_def Tag_PURPOSE_def Tag_ALGORITHM_def Tag_KEY_SIZE_def Tag_BLOCK_MODE_def
  Tag_DIGEST_def Tag_PADDING_def Tag_CALLER_NONCE_def Tag_MIN_MAC_LENGTH_def
  Tag_EC_CURVE_def Tag_RSA_PUBLIC_EXPONENT_def Tag_INCLUDE_UNIQUE_ID_def
  Tag_BLOB_USAGE_REQUIREMENTS_def Tag_BOOTLOADER_ONLY_def Tag_ROLLBACK_RESISTANCE_def
  Tag_HARDWARE_TYPE_def Tag_ACTIVE_DATETIME_def Tag_ORIGINATION_EXPIRE_DATETIME_def
  Tag_USAGE_EXPIRE_DATETIME_def Tag_MIN_SECONDS_BETWEEN_OPS_def Tag_MAX_USES_PER_BOOT_def
  Tag_USER_ID_def Tag_USER_SECURE_ID_def Tag_NO_AUTH_REQUIRED_def Tag_USER_AUTH_TYPE_def
  Tag_AUTH_TIMEOUT_def Tag_ALLOW_WHILE_ON_BODY_def Tag_TRUSTED_USER_PRESENCE_REQUIRED_def
  Tag_TRUSTED_CONFIRMATION_REQUIRED_def Tag_UNLOCKED_DEVICE_REQUIRED_def
  Tag_APPLICATION_ID_def Tag_APPLICATION_DATA_def Tag_CREATION_DATETIME_def Tag_ORIGIN_def
  Tag_ROOT_OF_TRUST_def Tag_OS_VERSION_def Tag_OS_PATCHLEVEL_def Tag_UNIQUE_ID_def
  Tag_ATTESTATION_CHALLENGE_def Tag_ATTESTATION_APPLICATION_ID_def
  Tag_ATTESTATION_ID_BRAND_def Tag_ATTESTATION_ID_DEVICE_def
  Tag_ATTESTATION_ID_PRODUCT_def Tag_ATTESTATION_ID_SERIAL_def Tag_ATTESTATION_ID_IMEI_def
  Tag_ATTESTATION_ID_MEID_def Tag_ATTESTATION_ID_MANUFACTURER_def
  Tag_ATTESTATION_ID_MODEL_def Tag_VENDOR_PATCHLEVEL_def Tag_BOOT_PATCHLEVEL_def
  Tag_ASSOCIATED_DATA_def Tag_NONCE_def Tag_MAC_LENGTH_def Tag_RESET_SINCE_ID_ROTATION_def
  Tag_CONFIRMATION_TOKEN_def

definition Tag_enumerators :: "Tag list" where
  "Tag_enumerators =
     [Tag_INVALID, Tag_PURPOSE, Tag_ALGORITHM, Tag_KEY_SIZE, Tag_BLOCK_MODE, Tag_DIGEST,
      Tag_PADDING, Tag_CALLER_NONCE, Tag_MIN_MAC_LENGTH, Tag_EC_CURVE,
      Tag_RSA_PUBLIC_EXPONENT, Tag_INCLUDE_UNIQUE_ID, Tag_BLOB_USAGE_REQUIREMENTS,
      Tag_BOOTLOADER_ONLY, Tag_ROLLBACK_RESISTANCE, Tag_HARDWARE_TYPE, Tag_ACTIVE_DATETIME,
      Tag_ORIGINATION_EXPIRE_DATETIME, Tag_USAGE_EXPIRE_DATETIME,
      Tag_MIN_SECONDS_BETWEEN_OPS, Tag_MAX_USES_PER_BOOT, Tag_USER_ID, Tag_USER_SECURE_ID,
      Tag_NO_AUTH_REQUIRED, Tag_USER_AUTH_TYPE, Tag_AUTH_TIMEOUT, Tag_ALLOW_WHILE_ON_BODY,
      Tag_TRUSTED_USER_PRESENCE_REQUIRED, Tag_TRUSTED_CONFIRMATION_REQUIRED,
      Tag_UNLOCKED_DEVICE_REQUIRED, Tag_APPLICATION_ID, Tag_APPLICATION_DATA,
      Tag_CREATION_DATETIME, Tag_ORIGIN, Tag_ROOT_OF_TRUST, Tag_OS_VERSION,
      Tag_OS_PATCHLEVEL, Tag_UNIQUE_ID, Tag_ATTESTATION_CHALLENGE,
      Tag_ATTESTATION_APPLICATION_ID, Tag_ATTESTATION_ID_BRAND, Tag_ATTESTATION_ID_DEVICE,
      Tag_ATTESTATION_ID_PRODUCT, Tag_ATTESTATION_ID_SERIAL, Tag_ATTESTATION_ID_IMEI,
      Tag_ATTESTATION_ID_MEID, Tag_ATTESTATION_ID_MANUFACTURER, Tag_ATTESTATION_ID_MODEL,
      Tag_VENDOR_PATCHLEVEL, Tag_BOOT_PATCHLEVEL, Tag_ASSOCIATED_DATA, Tag_NONCE,
      Tag_MAC_LENGTH, Tag_RESET_SINCE_ID_ROTATION, Tag_CONFIRMATION_TOKEN]"

text \<open>
  The four constants the header itself adds. They are \<open>int32_t\<close> values built from a
  \<open>TagType\<close>; none of them is an enumerator of \<open>Tag\<close>, and a \<open>KeyParameter\<close> carries
  one of them only through a cast.
\<close>

definition KM_TAG_DIGEST_OLD :: "32 word" where "KM_TAG_DIGEST_OLD = TagType_ENUM OR 5"
definition KM_TAG_PADDING_OLD :: "32 word" where "KM_TAG_PADDING_OLD = TagType_ENUM OR 7"
definition KM_TAG_FBE_ICE :: "32 word" where "KM_TAG_FBE_ICE = TagType_BOOL OR 16201"
definition KM_TAG_KEY_TYPE :: "32 word" where "KM_TAG_KEY_TYPE = TagType_UINT OR 16202"

definition typeFromTag :: "Tag \<Rightarrow> TagType" where
  "typeFromTag tag = tag AND 0xf0000000"

subsection \<open>TypedTag\<close>

datatype build_error =
    static_assert_failed string
  | no_matching_function
  | incomplete_type

text \<open>
  \<open>TypedTag<tag_type, tag>\<close>: the two template arguments. The constructor's
  \<open>static_assert\<close> is the only check; an instance that fails it does not compile.
\<close>

datatype TypedTag = TypedTag (tag_type: TagType) (operator_Tag: Tag)

definition TypedTag_ctor :: "TagType \<Rightarrow> Tag \<Rightarrow> build_error + TypedTag" where
  "TypedTag_ctor tt t =
     (if typeFromTag t = tt then Inr (TypedTag tt t)
      else Inl (static_assert_failed ''mismatch between tag and tag_type''))"

definition maskedTag :: "TypedTag \<Rightarrow> 32 word" where
  "maskedTag ttag = operator_Tag ttag AND 0x0FFFFFFF"

text \<open>\<open>Tag2TypedTag<tag>::type\<close> is \<open>TypedTag<typeFromTag(tag), tag>\<close>.\<close>

definition Tag2TypedTag :: "Tag \<Rightarrow> TypedTag" where
  "Tag2TypedTag t = TypedTag (typeFromTag t) t"

text \<open>
  \<open>DECLARE_TYPED_TAG(name)\<close> names that type and creates the instance \<open>TAG_name\<close>,
  which runs the constructor.
\<close>

definition DECLARE_TYPED_TAG :: "Tag \<Rightarrow> build_error + TypedTag" where
  "DECLARE_TYPED_TAG t = TypedTag_ctor (tag_type (Tag2TypedTag t)) (operator_Tag (Tag2TypedTag t))"

text \<open>The 47 tags of the \<open>DECLARE_TYPED_TAG\<close> lines, in the header's order.\<close>

definition declared_tags :: "Tag list" where
  "declared_tags =
     [Tag_ACTIVE_DATETIME, Tag_ALGORITHM, Tag_ALLOW_WHILE_ON_BODY, Tag_APPLICATION_DATA,
      Tag_APPLICATION_ID, Tag_ASSOCIATED_DATA, Tag_ATTESTATION_APPLICATION_ID,
      Tag_ATTESTATION_CHALLENGE, Tag_AUTH_TIMEOUT, Tag_BLOB_USAGE_REQUIREMENTS,
      Tag_BLOCK_MODE, Tag_BOOTLOADER_ONLY, Tag_BOOT_PATCHLEVEL, Tag_CALLER_NONCE,
      Tag_CONFIRMATION_TOKEN, Tag_CREATION_DATETIME, Tag_DIGEST, Tag_EC_CURVE,
      Tag_HARDWARE_TYPE, Tag_INCLUDE_UNIQUE_ID, Tag_INVALID, Tag_KEY_SIZE, Tag_MAC_LENGTH,
      Tag_MAX_USES_PER_BOOT, Tag_MIN_MAC_LENGTH, Tag_MIN_SECONDS_BETWEEN_OPS, Tag_NONCE,
      Tag_NO_AUTH_REQUIRED, Tag_ORIGIN, Tag_ORIGINATION_EXPIRE_DATETIME, Tag_OS_PATCHLEVEL,
      Tag_OS_VERSION, Tag_PADDING, Tag_PURPOSE, Tag_RESET_SINCE_ID_ROTATION,
      Tag_ROLLBACK_RESISTANCE, Tag_ROOT_OF_TRUST, Tag_RSA_PUBLIC_EXPONENT,
      Tag_TRUSTED_CONFIRMATION_REQUIRED, Tag_TRUSTED_USER_PRESENCE_REQUIRED, Tag_UNIQUE_ID,
      Tag_UNLOCKED_DEVICE_REQUIRED, Tag_USAGE_EXPIRE_DATETIME, Tag_USER_AUTH_TYPE,
      Tag_USER_ID, Tag_USER_SECURE_ID, Tag_VENDOR_PATCHLEVEL]"

text \<open>\<open>all_tags_t\<close>: the 46 typed tags of the \<open>MetaList\<close>.\<close>

definition all_tags_t :: "Tag list" where
  "all_tags_t =
     [Tag_INVALID, Tag_KEY_SIZE, Tag_MAC_LENGTH, Tag_CALLER_NONCE, Tag_MIN_MAC_LENGTH,
      Tag_RSA_PUBLIC_EXPONENT, Tag_INCLUDE_UNIQUE_ID, Tag_ACTIVE_DATETIME,
      Tag_ORIGINATION_EXPIRE_DATETIME, Tag_USAGE_EXPIRE_DATETIME,
      Tag_MIN_SECONDS_BETWEEN_OPS, Tag_MAX_USES_PER_BOOT, Tag_USER_ID, Tag_USER_SECURE_ID,
      Tag_NO_AUTH_REQUIRED, Tag_AUTH_TIMEOUT, Tag_ALLOW_WHILE_ON_BODY,
      Tag_UNLOCKED_DEVICE_REQUIRED, Tag_APPLICATION_ID, Tag_APPLICATION_DATA,
      Tag_CREATION_DATETIME, Tag_ROLLBACK_RESISTANCE, Tag_HARDWARE_TYPE, Tag_ROOT_OF_TRUST,
      Tag_ASSOCIATED_DATA, Tag_NONCE, Tag_BOOTLOADER_ONLY, Tag_OS_VERSION,
      Tag_OS_PATCHLEVEL, Tag_UNIQUE_ID, Tag_ATTESTATION_CHALLENGE,
      Tag_ATTESTATION_APPLICATION_ID, Tag_RESET_SINCE_ID_ROTATION, Tag_PURPOSE,
      Tag_ALGORITHM, Tag_BLOCK_MODE, Tag_DIGEST, Tag_PADDING, Tag_BLOB_USAGE_REQUIREMENTS,
      Tag_ORIGIN, Tag_USER_AUTH_TYPE, Tag_EC_CURVE, Tag_BOOT_PATCHLEVEL,
      Tag_VENDOR_PATCHLEVEL, Tag_TRUSTED_CONFIRMATION_REQUIRED,
      Tag_TRUSTED_USER_PRESENCE_REQUIRED]"

subsection \<open>KeyParameter\<close>

text \<open>
  Modelled from the spec: the struct \<open>KeyParameter\<close> is declared in the HAL definition
  and is not among the source files. The spec describes it as a \<open>tag\<close> plus a union
  payload with a 32-bit integer, a 64-bit integer, a date-time timestamp, enumerated
  codes and a byte sequence; the header names the members (\<open>f.integer\<close>,
  \<open>f.longInteger\<close>, \<open>f.dateTime\<close>, \<open>f.boolValue\<close>, the ten enumeration members of
  \<open>f\<close>, and \<open>blob\<close>). The members of the union \<open>f\<close> share their storage, which is as
  wide as \<open>f.longInteger\<close>: the model keeps these 64 bits, every member starting at the
  lowest byte (little-endian, as on the Android targets). The enumerations are 32 bits
  wide, \<open>f.dateTime\<close> is 64 bits wide and \<open>f.boolValue\<close> is one byte; the names of the
  member types below are those of the HAL definition.
\<close>

record KeyParameter =
  tag :: Tag
  f :: "64 word"
  blob :: "8 word list"

text \<open>
  \<open>KeyParameter param;\<close> without an initialiser: the byte vector is empty, \<open>tag\<close> and
  the union hold whatever the stack held, here the two arguments.
\<close>

definition KeyParameter_decl :: "Tag \<Rightarrow> 64 word \<Rightarrow> KeyParameter" where
  "KeyParameter_decl t0 u0 = \<lparr>tag = t0, f = u0, blob = []\<rparr>"

datatype EnumType =
    Algorithm | KeyBlobUsageRequirements | BlockMode | Digest | EcCurve | KeyOrigin
  | PaddingMode | KeyPurpose | HardwareAuthenticatorType | SecurityLevel

datatype ValueT = uint32_t | uint64_t | bool_t | hidl_vec_uint8_t | enum_t EnumType

datatype Value =
    V_uint32 "32 word"
  | V_uint64 "64 word"
  | V_bool bool
  | V_vec "8 word list"
  | V_enum EnumType "32 word"

text \<open>The \<open>field_name\<close> arguments of the accessor macros.\<close>

datatype field_name =
    f_longInteger | f_dateTime | f_integer | f_boolValue | field_blob
  | f_algorithm | f_keyBlobUsageRequirements | f_blockMode | f_digest | f_ecCurve
  | f_origin | f_paddingMode | f_purpose | f_hardwareAuthenticatorType | f_hardwareType

text \<open>\<open>decltype(param.field_name)\<close>.\<close>

fun decltype :: "field_name \<Rightarrow> ValueT" where
  "decltype f_longInteger = uint64_t"
| "decltype f_dateTime = uint64_t"
| "decltype f_integer = uint32_t"
| "decltype f_boolValue = bool_t"
| "decltype field_blob = hidl_vec_uint8_t"
| "decltype f_algorithm = enum_t Algorithm"
| "decltype f_keyBlobUsageRequirements = enum_t KeyBlobUsageRequirements"
| "decltype f_blockMode = enum_t BlockMode"
| "decltype f_digest = enum_t Digest"
| "decltype f_ecCurve = enum_t EcCurve"
| "decltype f_origin = enum_t KeyOrigin"
| "decltype f_paddingMode = enum_t PaddingMode"
| "decltype f_purpose = enum_t KeyPurpose"
| "decltype f_hardwareAuthenticatorType = enum_t HardwareAuthenticatorType"
| "decltype f_hardwareType = enum_t SecurityLevel"

text \<open>
  Reading \<open>param.field_name\<close>. A member of the union reads the low bytes of the shared
  storage as its own type (for \<open>f.boolValue\<close>: whether the low byte is not zero).
\<close>

fun load :: "field_name \<Rightarrow> KeyParameter \<Rightarrow> Value" where
  "load f_longInteger p = V_uint64 (f p)"
| "load f_dateTime p = V_uint64 (f p)"
| "load f_integer p = V_uint32 (ucast (f p))"
| "load f_boolValue p = V_bool ((ucast (f p) :: 8 word) \<noteq> 0)"
| "load field_blob p = V_vec (blob p)"
| "load f_algorithm p = V_enum Algorithm (ucast (f p))"
| "load f_keyBlobUsageRequirements p = V_enum KeyBlobUsageRequirements (ucast (f p))"
| "load f_blockMode p = V_enum BlockMode (ucast (f p))"
| "load f_digest p = V_enum Digest (ucast (f p))"
| "load f_ecCurve p = V_enum EcCurve (ucast (f p))"
| "load f_origin p = V_enum KeyOrigin (ucast (f p))"
| "load f_paddingMode p = V_enum PaddingMode (ucast (f p))"
| "load f_purpose p = V_enum KeyPurpose (ucast (f p))"
| "load f_hardwareAuthenticatorType p = V_enum HardwareAuthenticatorType (ucast (f p))"
| "load f_hardwareType p = V_enum SecurityLevel (ucast (f p))"

text \<open>
  Writing a value of a member's type to that member: a union member overwrites the low
  bits of the shared storage that its type covers (\<open>overwrite n w u\<close>: the low \<open>n\<close> bits
  of \<open>u\<close> replaced by those of \<open>w\<close>) and leaves the others, \<open>blob\<close> is a field of its
  own.
\<close>

definition overwrite :: "nat \<Rightarrow> 64 word \<Rightarrow> 64 word \<Rightarrow> 64 word" where
  "overwrite n w u = (u AND NOT (mask n)) OR (w AND mask n)"

fun store :: "Value \<Rightarrow> KeyParameter \<Rightarrow> KeyParameter" where
  "store (V_uint64 w) p = p\<lparr>f := overwrite 64 w (f p)\<rparr>"
| "store (V_uint32 w) p = p\<lparr>f := overwrite 32 (ucast w) (f p)\<rparr>"
| "store (V_enum e w) p = p\<lparr>f := overwrite 32 (ucast w) (f p)\<rparr>"
| "store (V_bool b) p = p\<lparr>f := overwrite 8 (if b then 1 else 0) (f p)\<rparr>"
| "store (V_vec bs) p = p\<lparr>blob := bs\<rparr>"

text \<open>
  The implicit conversions of C++ between the member types: the arithmetic types
  convert into each other, a scoped enumeration and the byte vector only into
  themselves. Argument types other than the member types are outside the model.
\<close>

fun implicit_conversion :: "ValueT \<Rightarrow> Value \<Rightarrow> Value option" where
  "implicit_conversion uint32_t (V_uint32 w) = Some (V_uint32 w)"
| "implicit_conversion uint32_t (V_uint64 w) = Some (V_uint32 (ucast w))"
| "implicit_conversion uint32_t (V_bool b) = Some (V_uint32 (if b then 1 else 0))"
| "implicit_conversion uint64_t (V_uint32 w) = Some (V_uint64 (ucast w))"
| "implicit_conversion uint64_t (V_uint64 w) = Some (V_uint64 w)"
| "implicit_conversion uint64_t (V_bool b) = Some (V_uint64 (if b then 1 else 0))"
| "implicit_conversion bool_t (V_uint32 w) = Some (V_bool (w \<noteq> 0))"
| "implicit_conversion bool_t (V_uint64 w) = Some (V_bool (w \<noteq> 0))"
| "implicit_conversion bool_t (V_bool b) = Some (V_bool b)"
| "implicit_conversion hidl_vec_uint8_t (V_vec bs) = Some (V_vec bs)"
| "implicit_conversion (enum_t e) (V_enum e' w) = (if e = e' then Some (V_enum e w) else None)"
| "implicit_conversion _ _ = None"

definition is_convertible :: "Value \<Rightarrow> ValueT \<Rightarrow> bool" where
  "is_convertible v ty = (implicit_conversion ty v \<noteq> None)"

fun type_of :: "Value \<Rightarrow> ValueT" where
  "type_of (V_uint32 w) = uint32_t"
| "type_of (V_uint64 w) = uint64_t"
| "type_of (V_bool b) = bool_t"
| "type_of (V_vec bs) = hidl_vec_uint8_t"
| "type_of (V_enum e w) = enum_t e"

subsection \<open>The accessors\<close>

definition TAG_ALGORITHM :: TypedTag where "TAG_ALGORITHM = Tag2TypedTag Tag_ALGORITHM"
definition TAG_BLOB_USAGE_REQUIREMENTS :: TypedTag where
  "TAG_BLOB_USAGE_REQUIREMENTS = Tag2TypedTag Tag_BLOB_USAGE_REQUIREMENTS"
definition TAG_BLOCK_MODE :: TypedTag where "TAG_BLOCK_MODE = Tag2TypedTag Tag_BLOCK_MODE"
definition TAG_DIGEST :: TypedTag where "TAG_DIGEST = Tag2TypedTag Tag_DIGEST"
definition TAG_EC_CURVE :: TypedTag where "TAG_EC_CURVE = Tag2TypedTag Tag_EC_CURVE"
definition TAG_ORIGIN :: TypedTag where "TAG_ORIGIN = Tag2TypedTag Tag_ORIGIN"
definition TAG_PADDING :: TypedTag where "TAG_PADDING = Tag2TypedTag Tag_PADDING"
definition TAG_PURPOSE :: TypedTag where "TAG_PURPOSE = Tag2TypedTag Tag_PURPOSE"
definition TAG_USER_AUTH_TYPE :: TypedTag where
  "TAG_USER_AUTH_TYPE = Tag2TypedTag Tag_USER_AUTH_TYPE"
definition TAG_HARDWARE_TYPE :: TypedTag where
  "TAG_HARDWARE_TYPE = Tag2TypedTag Tag_HARDWARE_TYPE"

lemmas TAG_defs =
  TAG_ALGORITHM_def TAG_BLOB_USAGE_REQUIREMENTS_def TAG_BLOCK_MODE_def TAG_DIGEST_def
  TAG_EC_CURVE_def TAG_ORIGIN_def TAG_PADDING_def TAG_PURPOSE_def TAG_USER_AUTH_TYPE_def
  TAG_HARDWARE_TYPE_def

text \<open>
  Overload resolution for \<open>accessTagValue(ttag, param)\<close>: the member it returns a
  reference to. The ten \<open>MAKE_TAG_ENUM_VALUE_ACCESSOR\<close> overloads are not templates and
  take one typed tag each, so they come first; the eight \<open>MAKE_TAG_VALUE_ACCESSOR\<close>
  templates take any tag of their \<open>tag_type\<close>. No overload: the call does not compile.
\<close>

definition accessTagValue :: "TypedTag \<Rightarrow> field_name option" where
  "accessTagValue ttag =
     (if ttag = TAG_ALGORITHM then Some f_algorithm
      else if ttag = TAG_BLOB_USAGE_REQUIREMENTS then Some f_keyBlobUsageRequirements
      else if ttag = TAG_BLOCK_MODE then Some f_blockMode
      else if ttag = TAG_DIGEST then Some f_digest
      else if ttag = TAG_EC_CURVE then Some f_ecCurve
      else if ttag = TAG_ORIGIN then Some f_origin
      else if ttag = TAG_PADDING then Some f_paddingMode
      else if ttag = TAG_PURPOSE then Some f_purpose
      else if ttag = TAG_USER_AUTH_TYPE then Some f_hardwareAuthenticatorType
      else if ttag = TAG_HARDWARE_TYPE then Some f_hardwareType
      else if tag_type ttag = TagType_ULONG then Some f_longInteger
      else if tag_type ttag = TagType_ULONG_REP then Some f_longInteger
      else if tag_type ttag = TagType_DATE then Some f_dateTime
      else if tag_type ttag = TagType_UINT then Some f_integer
      else if tag_type ttag = TagType_UINT_REP then Some f_integer
      else if tag_type ttag = TagType_BOOL then Some f_boolValue
      else if tag_type ttag = TagType_BYTES then Some field_blob
      else if tag_type ttag = TagType_BIGNUM then Some field_blob
      else None)"

text \<open>
  \<open>TypedTag2ValueType<ttag>::type\<close>: each macro defines it next to its accessor, as the
  type of the same member. \<open>None\<close>: the primary template, which has no definition.
\<close>

definition TypedTag2ValueType :: "TypedTag \<Rightarrow> ValueT option" where
  "TypedTag2ValueType ttag = map_option decltype (accessTagValue ttag)"

subsection \<open>makeKeyParameter and Authorization\<close>

definition makeKeyParameter :: "Tag \<Rightarrow> 64 word \<Rightarrow> TypedTag \<Rightarrow> Value \<Rightarrow> build_error + KeyParameter" where
  "makeKeyParameter t0 u0 ttag v =
     (let param = KeyParameter_decl t0 u0;
          param = param\<lparr>tag := operator_Tag ttag\<rparr>;
          param = store (V_uint64 0) param
      in case accessTagValue ttag of
           None \<Rightarrow> Inl no_matching_function
         | Some fld \<Rightarrow>
             (case implicit_conversion (decltype fld) v of
                None \<Rightarrow> Inl no_matching_function
              | Some v' \<Rightarrow> Inr (store v' param)))"

text \<open>The boolean case: the overload for \<open>TypedTag<TagType::BOOL, tag>\<close>, no value.\<close>

definition makeKeyParameter_BOOL :: "Tag \<Rightarrow> 64 word \<Rightarrow> TypedTag \<Rightarrow> KeyParameter" where
  "makeKeyParameter_BOOL t0 u0 ttag =
     (let param = KeyParameter_decl t0 u0;
          param = param\<lparr>tag := operator_Tag ttag\<rparr>;
          param = store (V_bool True) param
      in param)"

text \<open>
  \<open>Authorization(ttag, args...)\<close>: the three \<open>static_assert\<close>s in order, then the call
  of \<open>makeKeyParameter\<close>, whose overload the number of arguments selects.
\<close>

definition Authorization :: "Tag \<Rightarrow> 64 word \<Rightarrow> TypedTag \<Rightarrow> Value list \<Rightarrow> build_error + KeyParameter" where
  "Authorization t0 u0 ttag args =
     (if \<not> (tag_type ttag \<noteq> TagType_BOOL \<or> length args = 0) then
        Inl (static_assert_failed
          ''TagType::BOOL Authorizations do not take parameters. Presence is truth.'')
      else if \<not> (tag_type ttag = TagType_BOOL \<or> length args = 1) then
        Inl (static_assert_failed
          ''Authorization other then TagType::BOOL take exactly one parameter.'')
      else case TypedTag2ValueType ttag of
        None \<Rightarrow> Inl incomplete_type
      | Some ty \<Rightarrow>
          if \<not> (tag_type ttag = TagType_BOOL \<or>
                (case args of [] \<Rightarrow> False | a # _ \<Rightarrow> is_convertible a ty)) then
            Inl (static_assert_failed ''Invalid argument type for given tag.'')
          else (case args of
                  [] \<Rightarrow> Inr (makeKeyParameter_BOOL t0 u0 ttag)
                | a # _ \<Rightarrow> makeKeyParameter t0 u0 ttag a))"

subsection \<open>NullOr\<close>

text \<open>
  \<open>NullOr<ValueT>\<close> keeps the members \<open>value_\<close> and \<open>null_\<close>, here \<open>value'\<close> and
  \<open>null'\<close>. For a reference type \<open>value_\<close> is a pointer: the model takes \<open>'a option\<close> for it, \<open>None\<close> the null pointer and \<open>Some x\<close> a
  pointer to an object that holds \<open>x\<close>.
\<close>

record 'a NullOr =
  value' :: 'a
  null' :: bool

text \<open>\<open>NullOr()\<close>; the argument is \<open>initializer_t::init()\<close>.\<close>

definition NullOr_default :: "'a \<Rightarrow> 'a NullOr" where
  "NullOr_default init = \<lparr>value' = init, null' = True\<rparr>"

definition NullOr_of :: "'a \<Rightarrow> 'a NullOr" where
  "NullOr_of v = \<lparr>value' = v, null' = False\<rparr>"

definition isOk :: "'a NullOr \<Rightarrow> bool" where
  "isOk w = (\<not> null' w)"

text \<open>
  \<open>value()\<close> of a wrapped reference dereferences the pointer: \<open>None\<close> is the null
  pointer dereferenced, which C++ leaves undefined.
\<close>

definition value_ref :: "'a option NullOr \<Rightarrow> 'a option" where
  "value_ref w = value' w"

text \<open>The two overloads of \<open>NullOrOr\<close>: one argument, and a head with a tail.\<close>

fun NullOrOr :: "'a \<Rightarrow> 'a NullOr \<Rightarrow> 'a NullOr list \<Rightarrow> 'a NullOr" where
  "NullOrOr init v [] = (if isOk v then v else NullOr_default init)"
| "NullOrOr init head (t # tail) = (if isOk head then head else NullOrOr init t tail)"

definition defaultOr :: "'a NullOr \<Rightarrow> 'a \<Rightarrow> 'a" where
  "defaultOr optional def = (if isOk optional then value' optional else def)"

definition authorizationValue ::
    "TypedTag \<Rightarrow> KeyParameter \<Rightarrow> build_error + Value option NullOr" where
  "authorizationValue ttag param =
     (case accessTagValue ttag of
        None \<Rightarrow> Inl no_matching_function
      | Some fld \<Rightarrow>
          Inr (if operator_Tag ttag \<noteq> tag param then NullOr_default None
               else NullOr_of (Some (load fld param))))"

subsection \<open>operator==\<close>

datatype comparison = return_true | compare field_name

text \<open>The case groups of the switch, each with the statement it runs.\<close>

definition switch_cases :: "(Tag list \<times> comparison) list" where
  "switch_cases =
     [([Tag_INVALID, Tag_CALLER_NONCE, Tag_INCLUDE_UNIQUE_ID, Tag_BOOTLOADER_ONLY,
        Tag_NO_AUTH_REQUIRED, Tag_ALLOW_WHILE_ON_BODY, Tag_UNLOCKED_DEVICE_REQUIRED,
        Tag_ROLLBACK_RESISTANCE, Tag_RESET_SINCE_ID_ROTATION,
        Tag_TRUSTED_CONFIRMATION_REQUIRED, Tag_TRUSTED_USER_PRESENCE_REQUIRED],
       return_true),
      ([Tag_KEY_SIZE, Tag_MIN_MAC_LENGTH, Tag_MIN_SECONDS_BETWEEN_OPS,
        Tag_MAX_USES_PER_BOOT, Tag_OS_VERSION, Tag_OS_PATCHLEVEL, Tag_MAC_LENGTH,
        Tag_USER_ID, Tag_AUTH_TIMEOUT, Tag_VENDOR_PATCHLEVEL, Tag_BOOT_PATCHLEVEL],
       compare f_integer),
      ([Tag_RSA_PUBLIC_EXPONENT, Tag_USER_SECURE_ID], compare f_longInteger),
      ([Tag_ACTIVE_DATETIME, Tag_ORIGINATION_EXPIRE_DATETIME, Tag_USAGE_EXPIRE_DATETIME,
        Tag_CREATION_DATETIME],
       compare f_dateTime),
      ([Tag_APPLICATION_ID, Tag_APPLICATION_DATA, Tag_ROOT_OF_TRUST, Tag_UNIQUE_ID,
        Tag_ATTESTATION_CHALLENGE, Tag_ATTESTATION_APPLICATION_ID,
        Tag_ATTESTATION_ID_BRAND, Tag_ATTESTATION_ID_DEVICE, Tag_ATTESTATION_ID_PRODUCT,
        Tag_ATTESTATION_ID_SERIAL, Tag_ATTESTATION_ID_IMEI, Tag_ATTESTATION_ID_MEID,
        Tag_ATTESTATION_ID_MANUFACTURER, Tag_ATTESTATION_ID_MODEL, Tag_ASSOCIATED_DATA,
        Tag_CONFIRMATION_TOKEN, Tag_NONCE],
       compare field_blob),
      ([Tag_PURPOSE], compare f_purpose),
      ([Tag_ALGORITHM], compare f_algorithm),
      ([Tag_BLOCK_MODE], compare f_blockMode),
      ([Tag_DIGEST], compare f_digest),
      ([Tag_PADDING], compare f_paddingMode),
      ([Tag_EC_CURVE], compare f_ecCurve),
      ([Tag_BLOB_USAGE_REQUIREMENTS], compare f_keyBlobUsageRequirements),
      ([Tag_USER_AUTH_TYPE], compare f_integer),
      ([Tag_ORIGIN], compare f_origin),
      ([Tag_HARDWARE_TYPE], compare f_hardwareType)]"

text \<open>The group a tag's case label is in; \<open>None\<close>: no label, control leaves the switch.\<close>

fun switch :: "Tag \<Rightarrow> (Tag list \<times> comparison) list \<Rightarrow> comparison option" where
  "switch t [] = None"
| "switch t ((labels, c) # rest) = (if t \<in> set labels then Some c else switch t rest)"

definition operator_eq :: "KeyParameter \<Rightarrow> KeyParameter \<Rightarrow> bool" where
  "operator_eq a b =
     (if tag a \<noteq> tag b then False
      else case switch (tag a) switch_cases of
        Some return_true \<Rightarrow> True
      | Some (compare fld) \<Rightarrow> load fld a = load fld b
      | None \<Rightarrow> False)"

text \<open>
  The number of low bits of the union's storage that a member of the given type covers;
  \<open>blob\<close> is outside the union and covers none.
\<close>

fun bits_in_union :: "ValueT \<Rightarrow> nat" where
  "bits_in_union uint64_t = 64"
| "bits_in_union uint32_t = 32"
| "bits_in_union (enum_t e) = 32"
| "bits_in_union bool_t = 8"
| "bits_in_union hidl_vec_uint8_t = 0"

section \<open>Properties\<close>

subsection \<open>Storage and conversions\<close>

lemma overwrite_64 [simp]: "overwrite 64 w u = w"
  unfolding overwrite_def by (rule bit_word_eqI) (auto simp add: bit_simps)

lemma ucast32_overwrite [simp]: "(ucast (overwrite 32 (ucast (w::32 word)) u) :: 32 word) = w"
  unfolding overwrite_def by (rule bit_word_eqI) (auto simp add: bit_simps)

lemma ucast8_overwrite [simp]: "(ucast (overwrite 8 w u) :: 8 word) = ucast w"
  unfolding overwrite_def by (rule bit_word_eqI) (auto simp add: bit_simps)

lemma overwrite_outside: "n \<le> m \<Longrightarrow> overwrite n w 0 AND NOT (mask m) = 0"
  unfolding overwrite_def by (rule bit_word_eqI) (auto simp add: bit_simps)

lemma implicit_conversion_same: "implicit_conversion (type_of v) v = Some v"
  by (cases v) simp_all

lemma type_of_conversion: "implicit_conversion ty a = Some v \<Longrightarrow> type_of v = ty"
  by (cases ty; cases a) (auto split: if_splits)

text \<open>A member reads back what was written to it, whatever the storage held before.\<close>

lemma load_store: "type_of v = decltype fld \<Longrightarrow> load fld (store v p) = v"
  by (cases fld; cases v) simp_all

lemma tag_store [simp]: "tag (store v p) = tag p"
  by (cases v) simp_all

subsection \<open>Overload resolution\<close>

lemma enum_TAG_types:
  "tag_type TAG_ALGORITHM \<noteq> TagType_BOOL"
  "tag_type TAG_BLOB_USAGE_REQUIREMENTS \<noteq> TagType_BOOL"
  "tag_type TAG_BLOCK_MODE \<noteq> TagType_BOOL"
  "tag_type TAG_DIGEST \<noteq> TagType_BOOL"
  "tag_type TAG_EC_CURVE \<noteq> TagType_BOOL"
  "tag_type TAG_ORIGIN \<noteq> TagType_BOOL"
  "tag_type TAG_PADDING \<noteq> TagType_BOOL"
  "tag_type TAG_PURPOSE \<noteq> TagType_BOOL"
  "tag_type TAG_USER_AUTH_TYPE \<noteq> TagType_BOOL"
  "tag_type TAG_HARDWARE_TYPE \<noteq> TagType_BOOL"
  by (simp_all add: TAG_defs Tag2TypedTag_def typeFromTag_def Tag_defs TagType_defs)

lemma accessTagValue_BOOL:
  "tag_type ttag = TagType_BOOL \<Longrightarrow> accessTagValue ttag = Some f_boolValue"
  using enum_TAG_types
  by (auto simp add: accessTagValue_def TagType_defs)

lemma accessTagValue_KEY_SIZE: "accessTagValue (Tag2TypedTag Tag_KEY_SIZE) = Some f_integer"
  by (simp add: accessTagValue_def TAG_defs Tag2TypedTag_def typeFromTag_def Tag_defs
      TagType_defs)

lemma tag_type_KEY_SIZE: "tag_type (Tag2TypedTag Tag_KEY_SIZE) \<noteq> TagType_BOOL"
  by (simp add: Tag2TypedTag_def typeFromTag_def Tag_defs TagType_defs)

lemma tag_type_CALLER_NONCE: "tag_type (Tag2TypedTag Tag_CALLER_NONCE) = TagType_BOOL"
  by (simp add: Tag2TypedTag_def typeFromTag_def Tag_defs TagType_defs)

subsection \<open>What Authorization returns\<close>

text \<open>
  With one argument that converts to the member's type, for a tag that is not boolean:
  the tag, the union cleared, then the member written. Neither indeterminate value is
  left in the result.
\<close>

lemma Authorization_value:
  assumes "tag_type ttag \<noteq> TagType_BOOL" "accessTagValue ttag = Some fld"
    "implicit_conversion (decltype fld) a = Some v"
  shows "Authorization t0 u0 ttag [a] =
           Inr (store v \<lparr>tag = operator_Tag ttag, f = 0, blob = []\<rparr>)"
  using assms
  by (simp add: Authorization_def TypedTag2ValueType_def is_convertible_def
      makeKeyParameter_def KeyParameter_decl_def)

text \<open>
  With no argument, for a boolean tag: the tag, then \<open>f.boolValue\<close> written over the
  indeterminate union.
\<close>

lemma Authorization_BOOL:
  assumes "tag_type ttag = TagType_BOOL"
  shows "Authorization t0 u0 ttag [] =
           Inr (store (V_bool True) \<lparr>tag = operator_Tag ttag, f = u0, blob = []\<rparr>)"
  using assms accessTagValue_BOOL [OF assms]
  by (simp add: Authorization_def TypedTag2ValueType_def makeKeyParameter_BOOL_def
      KeyParameter_decl_def)

subsection \<open>Construction, then extraction\<close>

text \<open>
  Claim C1. For every typed tag that is not boolean and has a mapped value type, and
  every value \<open>v\<close> of that type, \<open>Authorization(tag, v)\<close> compiles and
  \<open>authorizationValue(tag, _)\<close> of its result is a valid wrapper whose value is \<open>v\<close>.
  For every boolean typed tag, \<open>Authorization(tag)\<close> compiles and
  \<open>authorizationValue(tag, _)\<close> of its result is a valid wrapper whose value is true.
  This holds for any indeterminate content \<open>t0\<close>, \<open>u0\<close> of the new \<open>KeyParameter\<close>.
\<close>

theorem Authorization_authorizationValue_roundtrip:
  "(tag_type ttag \<noteq> TagType_BOOL \<and> TypedTag2ValueType ttag = Some (type_of v) \<longrightarrow>
      (\<exists>p w. Authorization t0 u0 ttag [v] = Inr p \<and> authorizationValue ttag p = Inr w \<and>
             isOk w \<and> value_ref w = Some v)) \<and>
   (tag_type ttag = TagType_BOOL \<longrightarrow>
      (\<exists>p w. Authorization t0 u0 ttag [] = Inr p \<and> authorizationValue ttag p = Inr w \<and>
             isOk w \<and> value_ref w = Some (V_bool True)))"
proof (intro conjI impI)
  assume h: "tag_type ttag \<noteq> TagType_BOOL \<and> TypedTag2ValueType ttag = Some (type_of v)"
  then obtain fld where fld: "accessTagValue ttag = Some fld" "decltype fld = type_of v"
    by (auto simp add: TypedTag2ValueType_def)
  have conv: "implicit_conversion (decltype fld) v = Some v"
    using fld(2) implicit_conversion_same [of v] by simp
  let ?p = "store v \<lparr>tag = operator_Tag ttag, f = 0, blob = []\<rparr>"
  have a: "Authorization t0 u0 ttag [v] = Inr ?p"
    using h fld(1) conv by (simp add: Authorization_value)
  have b: "authorizationValue ttag ?p = Inr (NullOr_of (Some v))"
    using fld by (simp add: authorizationValue_def load_store)
  show "\<exists>p w. Authorization t0 u0 ttag [v] = Inr p \<and> authorizationValue ttag p = Inr w \<and>
             isOk w \<and> value_ref w = Some v"
    using a b by (simp add: isOk_def value_ref_def NullOr_of_def)
next
  assume h: "tag_type ttag = TagType_BOOL"
  let ?p = "store (V_bool True) \<lparr>tag = operator_Tag ttag, f = u0, blob = []\<rparr>"
  have a: "Authorization t0 u0 ttag [] = Inr ?p"
    using h by (rule Authorization_BOOL)
  have b: "authorizationValue ttag ?p = Inr (NullOr_of (Some (V_bool True)))"
    using accessTagValue_BOOL [OF h] by (simp add: authorizationValue_def)
  show "\<exists>p w. Authorization t0 u0 ttag [] = Inr p \<and> authorizationValue ttag p = Inr w \<and>
             isOk w \<and> value_ref w = Some (V_bool True)"
    using a b by (simp add: isOk_def value_ref_def NullOr_of_def)
qed

theorem Authorization_authorizationValue_roundtrip_witness:
  "tag_type (Tag2TypedTag Tag_KEY_SIZE) \<noteq> TagType_BOOL \<and>
   TypedTag2ValueType (Tag2TypedTag Tag_KEY_SIZE) = Some (type_of (V_uint32 256)) \<and>
   (\<exists>p w. Authorization 7 9 (Tag2TypedTag Tag_KEY_SIZE) [V_uint32 256] = Inr p \<and>
          authorizationValue (Tag2TypedTag Tag_KEY_SIZE) p = Inr w \<and>
          isOk w \<and> value_ref w = Some (V_uint32 256)) \<and>
   tag_type (Tag2TypedTag Tag_CALLER_NONCE) = TagType_BOOL \<and>
   (\<exists>p w. Authorization 7 9 (Tag2TypedTag Tag_CALLER_NONCE) [] = Inr p \<and>
          authorizationValue (Tag2TypedTag Tag_CALLER_NONCE) p = Inr w \<and>
          isOk w \<and> value_ref w = Some (V_bool True))"
proof -
  have b: "TypedTag2ValueType (Tag2TypedTag Tag_KEY_SIZE) = Some (type_of (V_uint32 256))"
    by (simp add: TypedTag2ValueType_def accessTagValue_KEY_SIZE)
  show ?thesis
    using tag_type_KEY_SIZE b tag_type_CALLER_NONCE
      Authorization_authorizationValue_roundtrip
        [of "Tag2TypedTag Tag_KEY_SIZE" "V_uint32 256" 7 9]
      Authorization_authorizationValue_roundtrip
        [of "Tag2TypedTag Tag_CALLER_NONCE" "V_uint32 256" 7 9]
    by blast
qed

lemma overwrite_32_1: "overwrite 32 1 0 = 1"
  by (simp add: overwrite_def mask_eq_exp_minus_1)

lemma narrowing_conversion:
  "implicit_conversion (decltype f_integer) (V_uint64 0x100000001) = Some (V_uint32 1)"
  by simp

text \<open>
  Claim C8, as amended. For a typed tag that is not boolean and an argument that
  converts implicitly to the mapped type, \<open>Authorization\<close> compiles, the \<open>tag\<close> of its
  result is the typed tag's tag and the member selected by \<open>accessTagValue\<close> holds the
  argument converted to the mapped type, which is the argument itself when it already
  has the mapped type. For a boolean typed tag \<open>Authorization(tag)\<close> compiles, the \<open>tag\<close>
  is the typed tag's tag and the selected member \<open>f.boolValue\<close> holds true. The claim
  as stated says that the member equals the supplied value for every admissible
  argument: the third \<open>static_assert\<close> admits every implicitly convertible argument,
  a narrowing one too, so \<open>Authorization(TAG_KEY_SIZE, v)\<close> with the 64-bit value
  \<open>v = 0x100000001\<close> compiles and \<open>f.integer\<close> holds 1.
\<close>

theorem Authorization_postcondition:
  "(tag_type ttag \<noteq> TagType_BOOL \<and> accessTagValue ttag = Some fld \<and>
    implicit_conversion (decltype fld) a = Some v \<longrightarrow>
      (\<exists>p. Authorization t0 u0 ttag [a] = Inr p \<and> tag p = operator_Tag ttag \<and>
           load fld p = v \<and> (type_of a = decltype fld \<longrightarrow> load fld p = a))) \<and>
   (tag_type ttag = TagType_BOOL \<longrightarrow>
      (\<exists>p. Authorization t0 u0 ttag [] = Inr p \<and> tag p = operator_Tag ttag \<and>
           accessTagValue ttag = Some f_boolValue \<and> load f_boolValue p = V_bool True))"
proof (intro conjI impI)
  assume h: "tag_type ttag \<noteq> TagType_BOOL \<and> accessTagValue ttag = Some fld \<and>
    implicit_conversion (decltype fld) a = Some v"
  let ?p = "store v \<lparr>tag = operator_Tag ttag, f = 0, blob = []\<rparr>"
  have a: "Authorization t0 u0 ttag [a] = Inr ?p"
    using h by (simp add: Authorization_value)
  have ty: "type_of v = decltype fld"
    using h type_of_conversion by blast
  have same: "type_of a = decltype fld \<longrightarrow> v = a"
    using h implicit_conversion_same [of a] by auto
  show "\<exists>p. Authorization t0 u0 ttag [a] = Inr p \<and> tag p = operator_Tag ttag \<and>
           load fld p = v \<and> (type_of a = decltype fld \<longrightarrow> load fld p = a)"
    using a ty same by (simp add: load_store)
next
  assume h: "tag_type ttag = TagType_BOOL"
  show "\<exists>p. Authorization t0 u0 ttag [] = Inr p \<and> tag p = operator_Tag ttag \<and>
           accessTagValue ttag = Some f_boolValue \<and> load f_boolValue p = V_bool True"
    using Authorization_BOOL [OF h] accessTagValue_BOOL [OF h] by simp
qed

theorem Authorization_postcondition_witness:
  "tag_type (Tag2TypedTag Tag_KEY_SIZE) \<noteq> TagType_BOOL \<and>
   accessTagValue (Tag2TypedTag Tag_KEY_SIZE) = Some f_integer \<and>
   implicit_conversion (decltype f_integer) (V_uint32 2048) = Some (V_uint32 2048) \<and>
   type_of (V_uint32 2048) = decltype f_integer \<and>
   (\<exists>p. Authorization 7 9 (Tag2TypedTag Tag_KEY_SIZE) [V_uint32 2048] = Inr p \<and>
        tag p = operator_Tag (Tag2TypedTag Tag_KEY_SIZE) \<and>
        load f_integer p = V_uint32 2048) \<and>
   implicit_conversion (decltype f_integer) (V_uint64 0x100000001) = Some (V_uint32 1) \<and>
   (\<exists>p. Authorization 7 9 (Tag2TypedTag Tag_KEY_SIZE) [V_uint64 0x100000001] = Inr p \<and>
        tag p = operator_Tag (Tag2TypedTag Tag_KEY_SIZE) \<and>
        load f_integer p = V_uint32 1) \<and>
   tag_type (Tag2TypedTag Tag_CALLER_NONCE) = TagType_BOOL \<and>
   (\<exists>p. Authorization 7 9 (Tag2TypedTag Tag_CALLER_NONCE) [] = Inr p \<and>
        tag p = operator_Tag (Tag2TypedTag Tag_CALLER_NONCE) \<and>
        load f_boolValue p = V_bool True)"
proof -
  have c: "implicit_conversion (decltype f_integer) (V_uint32 2048) = Some (V_uint32 2048)"
    by simp
  have d: "type_of (V_uint32 2048) = decltype f_integer" by simp
  show ?thesis
    using tag_type_KEY_SIZE accessTagValue_KEY_SIZE c d tag_type_CALLER_NONCE
      narrowing_conversion
      Authorization_postcondition
        [of "Tag2TypedTag Tag_KEY_SIZE" f_integer "V_uint32 2048" "V_uint32 2048" 7 9]
      Authorization_postcondition
        [of "Tag2TypedTag Tag_KEY_SIZE" f_integer "V_uint64 0x100000001" "V_uint32 1" 7 9]
      Authorization_postcondition
        [of "Tag2TypedTag Tag_CALLER_NONCE" f_integer "V_uint32 2048" "V_uint32 2048" 7 9]
    by blast
qed

theorem Authorization_postcondition_counterexample:
  "tag_type (Tag2TypedTag Tag_KEY_SIZE) \<noteq> TagType_BOOL \<and>
   TypedTag2ValueType (Tag2TypedTag Tag_KEY_SIZE) = Some uint32_t \<and>
   is_convertible (V_uint64 0x100000001) uint32_t \<and>
   Authorization 7 9 (Tag2TypedTag Tag_KEY_SIZE) [V_uint64 0x100000001] =
     Inr \<lparr>tag = Tag_KEY_SIZE, f = 1, blob = []\<rparr> \<and>
   accessTagValue (Tag2TypedTag Tag_KEY_SIZE) = Some f_integer \<and>
   load f_integer \<lparr>tag = Tag_KEY_SIZE, f = 1, blob = []\<rparr> = V_uint32 1 \<and>
   load f_integer \<lparr>tag = Tag_KEY_SIZE, f = 1, blob = []\<rparr> \<noteq> V_uint64 0x100000001 \<and>
   unat (1 :: 32 word) \<noteq> unat (0x100000001 :: 64 word)"
  using tag_type_KEY_SIZE accessTagValue_KEY_SIZE
    Authorization_value [OF tag_type_KEY_SIZE accessTagValue_KEY_SIZE narrowing_conversion,
      of 7 9]
  by (simp add: Tag2TypedTag_def overwrite_32_1 TypedTag2ValueType_def is_convertible_def)

subsection \<open>Extraction alone\<close>

lemma accessTagValue_ALGORITHM: "accessTagValue TAG_ALGORITHM = Some f_algorithm"
  by (simp add: accessTagValue_def)

lemma operator_Tag_ALGORITHM: "operator_Tag TAG_ALGORITHM = Tag_ALGORITHM"
  by (simp add: TAG_defs Tag2TypedTag_def)

lemma Tag_PURPOSE_ALGORITHM: "Tag_PURPOSE \<noteq> Tag_ALGORITHM"
  by (simp add: Tag_defs TagType_defs)

text \<open>
  Claim C4. For a typed tag with an accessor and any \<open>KeyParameter\<close>: when the tags
  differ the result is the default-constructed wrapper, which is invalid and the same
  whatever the payload holds; when they are equal it is a valid wrapper over the member
  that \<open>accessTagValue\<close> selects.
\<close>

theorem authorizationValue_absent_on_mismatch:
  "accessTagValue ttag = Some fld \<longrightarrow>
     (tag p \<noteq> operator_Tag ttag \<longrightarrow>
        authorizationValue ttag p = Inr (NullOr_default None) \<and>
        \<not> isOk (NullOr_default None :: Value option NullOr)) \<and>
     (tag p = operator_Tag ttag \<longrightarrow>
        (\<exists>w. authorizationValue ttag p = Inr w \<and> isOk w \<and>
             value_ref w = Some (load fld p)))"
  by (auto simp add: authorizationValue_def isOk_def NullOr_default_def NullOr_of_def
      value_ref_def)

theorem authorizationValue_absent_on_mismatch_witness:
  "accessTagValue TAG_ALGORITHM = Some f_algorithm \<and>
   tag \<lparr>tag = Tag_PURPOSE, f = 1, blob = []\<rparr> \<noteq> operator_Tag TAG_ALGORITHM \<and>
   authorizationValue TAG_ALGORITHM \<lparr>tag = Tag_PURPOSE, f = 1, blob = []\<rparr>
     = Inr (NullOr_default None) \<and>
   \<not> isOk (NullOr_default None :: Value option NullOr) \<and>
   tag \<lparr>tag = Tag_ALGORITHM, f = 1, blob = []\<rparr> = operator_Tag TAG_ALGORITHM \<and>
   (\<exists>w. authorizationValue TAG_ALGORITHM \<lparr>tag = Tag_ALGORITHM, f = 1, blob = []\<rparr> = Inr w \<and>
        isOk w \<and> value_ref w = Some (V_enum Algorithm 1))"
  using authorizationValue_absent_on_mismatch
          [of TAG_ALGORITHM f_algorithm "\<lparr>tag = Tag_PURPOSE, f = 1, blob = []\<rparr>"]
        authorizationValue_absent_on_mismatch
          [of TAG_ALGORITHM f_algorithm "\<lparr>tag = Tag_ALGORITHM, f = 1, blob = []\<rparr>"]
        accessTagValue_ALGORITHM operator_Tag_ALGORITHM Tag_PURPOSE_ALGORITHM
  by simp

subsection \<open>NullOrOr\<close>

lemma NullOrOr_find:
  "NullOrOr init h ts = (case find isOk (h # ts) of Some w \<Rightarrow> w | None \<Rightarrow> NullOr_default init)"
  by (induction init h ts rule: NullOrOr.induct) simp_all

lemma find_first_valid:
  "list_all (\<lambda>x. \<not> P x) pre \<Longrightarrow> P w \<Longrightarrow> find P (pre @ w # post) = Some w"
  by (induction pre) auto

lemma NullOrOr_first_valid:
  "list_all (\<lambda>x. \<not> isOk x) pre \<Longrightarrow> isOk w \<Longrightarrow> h # ts = pre @ w # post \<Longrightarrow>
     NullOrOr init h ts = w"
  by (simp add: NullOrOr_find find_first_valid)

text \<open>
  Claim C9. \<open>NullOrOr\<close> of a head and a tail of wrappers of one type returns the first
  valid wrapper from the left and the default-constructed wrapper, which is invalid,
  when there is none. The result is the first valid wrapper whatever comes after it.
\<close>

theorem NullOrOr_first_valid_or_invalid:
  "NullOrOr init h ts =
     (case find isOk (h # ts) of Some w \<Rightarrow> w | None \<Rightarrow> NullOr_default init) \<and>
   \<not> isOk (NullOr_default init) \<and>
   (\<forall>pre w post. list_all (\<lambda>x. \<not> isOk x) pre \<and> isOk w \<and> h # ts = pre @ w # post \<longrightarrow>
      NullOrOr init h ts = w) \<and>
   (list_all (\<lambda>x. \<not> isOk x) (h # ts) \<longrightarrow> NullOrOr init h ts = NullOr_default init)"
proof (intro conjI)
  show "NullOrOr init h ts =
     (case find isOk (h # ts) of Some w \<Rightarrow> w | None \<Rightarrow> NullOr_default init)"
    by (rule NullOrOr_find)
  show "\<not> isOk (NullOr_default init)"
    by (simp add: isOk_def NullOr_default_def)
  show "\<forall>pre w post. list_all (\<lambda>x. \<not> isOk x) pre \<and> isOk w \<and> h # ts = pre @ w # post \<longrightarrow>
      NullOrOr init h ts = w"
  proof (intro allI impI)
    fix pre w post
    assume "list_all (\<lambda>x. \<not> isOk x) pre \<and> isOk w \<and> h # ts = pre @ w # post"
    then show "NullOrOr init h ts = w"
      using NullOrOr_first_valid [of pre w h ts post init] by simp
  qed
  show "list_all (\<lambda>x. \<not> isOk x) (h # ts) \<longrightarrow> NullOrOr init h ts = NullOr_default init"
  proof
    assume "list_all (\<lambda>x. \<not> isOk x) (h # ts)"
    then have "find isOk (h # ts) = None"
      unfolding find_None_iff list_all_iff by blast
    then show "NullOrOr init h ts = NullOr_default init"
      unfolding NullOrOr_find by simp
  qed
qed

theorem NullOrOr_first_valid_or_invalid_witness:
  "list_all (\<lambda>x. \<not> isOk x) [NullOr_default (0::nat), NullOr_default 0] \<and>
   isOk (NullOr_of (5::nat)) \<and>
   NullOr_default (0::nat) # [NullOr_default 0, NullOr_of 5, NullOr_of 6]
     = [NullOr_default 0, NullOr_default 0] @ NullOr_of 5 # [NullOr_of 6] \<and>
   NullOrOr (0::nat) (NullOr_default 0) [NullOr_default 0, NullOr_of 5, NullOr_of 6]
     = NullOr_of 5 \<and>
   NullOrOr (0::nat) (NullOr_default 0) [NullOr_default 0] = NullOr_default 0"
proof -
  have a: "list_all (\<lambda>x. \<not> isOk x) [NullOr_default (0::nat), NullOr_default 0]"
    by (simp add: isOk_def NullOr_default_def)
  have b: "isOk (NullOr_of (5::nat))" by (simp add: isOk_def NullOr_of_def)
  have c: "NullOr_default (0::nat) # [NullOr_default 0, NullOr_of 5, NullOr_of 6]
             = [NullOr_default 0, NullOr_default 0] @ NullOr_of 5 # [NullOr_of 6]" by simp
  have all: "\<forall>pre w post. list_all (\<lambda>x. \<not> isOk x) pre \<and> isOk w \<and>
       NullOr_default (0::nat) # [NullOr_default 0, NullOr_of 5, NullOr_of 6] = pre @ w # post \<longrightarrow>
       NullOrOr 0 (NullOr_default (0::nat)) [NullOr_default 0, NullOr_of 5, NullOr_of 6] = w"
    using NullOrOr_first_valid_or_invalid
         [of 0 "NullOr_default (0::nat)" "[NullOr_default 0, NullOr_of 5, NullOr_of 6]"]
    by (elim conjE)
  have d: "NullOrOr (0::nat) (NullOr_default 0) [NullOr_default 0, NullOr_of 5, NullOr_of 6]
             = NullOr_of 5"
    using all [rule_format, of "[NullOr_default 0, NullOr_default 0]" "NullOr_of 5" "[NullOr_of 6]"]
      a b c by (elim meta_mp) (intro conjI)
  have e: "NullOrOr (0::nat) (NullOr_default 0) [NullOr_default 0] = NullOr_default 0"
    using NullOrOr_first_valid_or_invalid [of 0 "NullOr_default (0::nat)" "[NullOr_default 0]"] a
    by (elim conjE) (erule mp)
  show ?thesis using a b c d e by (intro conjI)
qed

subsection \<open>The switch and the enumeration\<close>

lemma Tag_enumerators_switch:
  "\<forall>t \<in> set Tag_enumerators.
     length (filter (\<lambda>(labels, c). t \<in> set labels) switch_cases) = 1"
  unfolding Tag_enumerators_def switch_cases_def Tag_defs TagType_defs
  by simp

lemma switch_None_iff: "switch t cs = None \<longleftrightarrow> (\<forall>(labels, c) \<in> set cs. t \<notin> set labels)"
  by (induction t cs rule: switch.induct) auto

lemma switch_enumerators:
  "switch t switch_cases = None \<longleftrightarrow> t \<notin> set Tag_enumerators"
  unfolding switch_None_iff 
  unfolding Tag_enumerators_def switch_cases_def
  by auto

lemma Tag_enumerators_types:
  "\<forall>t \<in> set Tag_enumerators. typeFromTag t \<in> set TagType_enumerators"
  unfolding Tag_enumerators_def TagType_enumerators_def typeFromTag_def Tag_defs TagType_defs
  by simp

lemma declared_enumerated: "set declared_tags \<subseteq> set Tag_enumerators"
  unfolding declared_tags_def Tag_enumerators_def by auto

lemma all_tags_declared: "set all_tags_t \<subseteq> set declared_tags"
  unfolding declared_tags_def all_tags_t_def by auto

lemma DECLARE_TYPED_TAG_ok: "DECLARE_TYPED_TAG t = Inr (TypedTag (typeFromTag t) t)"
  by (simp add: DECLARE_TYPED_TAG_def TypedTag_ctor_def Tag2TypedTag_def)

lemma switch_BOOL:
  "\<forall>t \<in> set Tag_enumerators. typeFromTag t = TagType_BOOL \<longrightarrow>
      switch t switch_cases = Some return_true"
  unfolding Tag_enumerators_def switch_cases_def typeFromTag_def Tag_defs TagType_defs
  by simp

lemma switch_accessor:
  "\<forall>t \<in> set Tag_enumerators.
      typeFromTag t \<noteq> TagType_BOOL \<and> typeFromTag t \<noteq> TagType_INVALID \<longrightarrow>
      (\<exists>fld. accessTagValue (Tag2TypedTag t) = Some fld \<and>
         (switch t switch_cases = Some (compare fld) \<or>
          fld = f_hardwareAuthenticatorType \<and> switch t switch_cases = Some (compare f_integer)))"
  unfolding Tag_enumerators_def switch_cases_def typeFromTag_def accessTagValue_def
    TAG_defs Tag2TypedTag_def typeFromTag_def Tag_defs TagType_defs
  by simp

lemma operator_eq_compare:
  "tag a = tag b \<Longrightarrow> switch (tag a) switch_cases = Some (compare fld) \<Longrightarrow>
     operator_eq a b \<longleftrightarrow> load fld a = load fld b"
  by (simp add: operator_eq_def)

lemma operator_eq_true:
  "tag a = tag b \<Longrightarrow> switch (tag a) switch_cases = Some return_true \<Longrightarrow> operator_eq a b"
  by (simp add: operator_eq_def)

lemma operator_eq_fallthrough:
  "switch (tag a) switch_cases = None \<Longrightarrow> \<not> operator_eq a b"
  by (auto simp add: operator_eq_def)

lemma categories_not_BOOL_INVALID:
  "tt \<in> {TagType_UINT, TagType_UINT_REP, TagType_ULONG, TagType_ULONG_REP, TagType_DATE,
          TagType_BYTES, TagType_BIGNUM, TagType_ENUM, TagType_ENUM_REP} \<Longrightarrow>
   tt \<noteq> TagType_BOOL \<and> tt \<noteq> TagType_INVALID"
  unfolding TagType_defs by auto

subsection \<open>Equality\<close>

text \<open>
  Claim C2, as amended. Parameters with different tags are not equal. With equal tags
  that are enumerators of \<open>Tag\<close>: when the tag's category is boolean the parameters are
  equal; when it is one of the integer, long, date, byte and enumerated categories they
  are equal exactly when the member that \<open>accessTagValue\<close> selects for the tag reads
  the same in both. (For \<open>USER_AUTH_TYPE\<close> the switch compares \<open>f.integer\<close> where the
  accessor selects \<open>f.hardwareAuthenticatorType\<close>; both read the same 32 bits of the
  union.) With a tag that is no enumerator they are not equal. The claim as stated speaks of every pair of parameters: it fails for equal
  tags that are no enumerators, such as the header's own \<open>KM_TAG_FBE_ICE\<close>, a boolean
  tag for which the switch has no label.
\<close>

theorem operator_eq_dispatch:
  "(tag a \<noteq> tag b \<longrightarrow> \<not> operator_eq a b) \<and>
   (tag a = tag b \<and> tag a \<in> set Tag_enumerators \<and> typeFromTag (tag a) = TagType_BOOL \<longrightarrow>
      operator_eq a b) \<and>
   (tag a = tag b \<and> tag a \<in> set Tag_enumerators \<and>
    typeFromTag (tag a) \<in> {TagType_UINT, TagType_UINT_REP, TagType_ULONG, TagType_ULONG_REP,
       TagType_DATE, TagType_BYTES, TagType_BIGNUM, TagType_ENUM, TagType_ENUM_REP} \<longrightarrow>
      (\<exists>fld. accessTagValue (Tag2TypedTag (tag a)) = Some fld \<and>
         (operator_eq a b \<longleftrightarrow> load fld a = load fld b))) \<and>
   (tag a \<notin> set Tag_enumerators \<longrightarrow> \<not> operator_eq a b)"
proof (intro conjI impI)
  assume "tag a \<noteq> tag b"
  then show "\<not> operator_eq a b" by (simp add: operator_eq_def)
next
  assume "tag a \<notin> set Tag_enumerators"
  then show "\<not> operator_eq a b"
    using switch_enumerators operator_eq_fallthrough by blast
next
  assume "tag a = tag b \<and> tag a \<in> set Tag_enumerators \<and> typeFromTag (tag a) = TagType_BOOL"
  then show "operator_eq a b"
    using switch_BOOL operator_eq_true by blast
next
  assume h: "tag a = tag b \<and> tag a \<in> set Tag_enumerators \<and>
    typeFromTag (tag a) \<in> {TagType_UINT, TagType_UINT_REP, TagType_ULONG, TagType_ULONG_REP,
       TagType_DATE, TagType_BYTES, TagType_BIGNUM, TagType_ENUM, TagType_ENUM_REP}"
  then have "typeFromTag (tag a) \<noteq> TagType_BOOL \<and> typeFromTag (tag a) \<noteq> TagType_INVALID"
    using categories_not_BOOL_INVALID by blast
  with h obtain fld where fld: "accessTagValue (Tag2TypedTag (tag a)) = Some fld"
    and sw: "switch (tag a) switch_cases = Some (compare fld) \<or>
          fld = f_hardwareAuthenticatorType \<and> switch (tag a) switch_cases = Some (compare f_integer)"
    using switch_accessor by blast
  from sw have "operator_eq a b \<longleftrightarrow> load fld a = load fld b"
  proof
    assume "switch (tag a) switch_cases = Some (compare fld)"
    then show ?thesis using h operator_eq_compare by blast
  next
    assume c: "fld = f_hardwareAuthenticatorType \<and>
      switch (tag a) switch_cases = Some (compare f_integer)"
    then have "operator_eq a b \<longleftrightarrow> load f_integer a = load f_integer b"
      using h operator_eq_compare by blast
    then show ?thesis using c by simp
  qed
  then show "\<exists>fld. accessTagValue (Tag2TypedTag (tag a)) = Some fld \<and>
         (operator_eq a b \<longleftrightarrow> load fld a = load fld b)"
    using fld by blast
qed

theorem operator_eq_dispatch_counterexample:
  "tag \<lparr>tag = KM_TAG_FBE_ICE, f = 1, blob = []\<rparr> = tag \<lparr>tag = KM_TAG_FBE_ICE, f = 1, blob = []\<rparr> \<and>
   typeFromTag (tag \<lparr>tag = KM_TAG_FBE_ICE, f = 1, blob = []\<rparr>) = TagType_BOOL \<and>
   \<not> operator_eq \<lparr>tag = KM_TAG_FBE_ICE, f = 1, blob = []\<rparr>
                  \<lparr>tag = KM_TAG_FBE_ICE, f = 1, blob = []\<rparr>"
  by (simp add: operator_eq_def switch_cases_def typeFromTag_def KM_TAG_FBE_ICE_def
      Tag_defs TagType_defs)

lemma mem_NONCE: "Tag_NONCE \<in> set Tag_enumerators"
  by (simp add: Tag_enumerators_def)

lemma mem_CALLER_NONCE: "Tag_CALLER_NONCE \<in> set Tag_enumerators"
  by (simp add: Tag_enumerators_def)

lemma type_NONCE: "typeFromTag Tag_NONCE = TagType_BYTES"
  by (simp add: typeFromTag_def Tag_defs TagType_defs)

lemma type_CALLER_NONCE: "typeFromTag Tag_CALLER_NONCE = TagType_BOOL"
  by (simp add: typeFromTag_def Tag_defs TagType_defs)

lemma accessTagValue_NONCE: "accessTagValue (Tag2TypedTag Tag_NONCE) = Some field_blob"
  by (simp add: accessTagValue_def TAG_defs Tag2TypedTag_def typeFromTag_def Tag_defs
      TagType_defs)

theorem operator_eq_dispatch_witness:
  "Tag_NONCE \<noteq> Tag_CALLER_NONCE \<and>
   Tag_CALLER_NONCE \<in> set Tag_enumerators \<and> typeFromTag Tag_CALLER_NONCE = TagType_BOOL \<and>
   Tag_NONCE \<in> set Tag_enumerators \<and> typeFromTag Tag_NONCE = TagType_BYTES \<and>
   \<not> operator_eq \<lparr>tag = Tag_NONCE, f = 0, blob = [1, 2, 3]\<rparr>
                  \<lparr>tag = Tag_CALLER_NONCE, f = 0, blob = [1, 2, 3]\<rparr> \<and>
   operator_eq \<lparr>tag = Tag_CALLER_NONCE, f = 1, blob = []\<rparr>
               \<lparr>tag = Tag_CALLER_NONCE, f = 77, blob = [5]\<rparr> \<and>
   operator_eq \<lparr>tag = Tag_NONCE, f = 0, blob = [1, 2, 3]\<rparr>
               \<lparr>tag = Tag_NONCE, f = 9, blob = [1, 2, 3]\<rparr> \<and>
   \<not> operator_eq \<lparr>tag = Tag_NONCE, f = 0, blob = [1, 2, 3]\<rparr>
                  \<lparr>tag = Tag_NONCE, f = 0, blob = [1, 2, 4]\<rparr> \<and>
   tag \<lparr>tag = KM_TAG_DIGEST_OLD, f = 4, blob = []\<rparr> \<notin> set Tag_enumerators \<and>
   \<not> operator_eq \<lparr>tag = KM_TAG_DIGEST_OLD, f = 4, blob = []\<rparr>
                  \<lparr>tag = KM_TAG_DIGEST_OLD, f = 4, blob = []\<rparr>"
proof -
  have out: "tag \<lparr>tag = KM_TAG_DIGEST_OLD, f = 4, blob = []\<rparr> \<notin> set Tag_enumerators"
    by (simp add: Tag_enumerators_def KM_TAG_DIGEST_OLD_def Tag_defs TagType_defs)
  have e: "\<not> operator_eq \<lparr>tag = KM_TAG_DIGEST_OLD, f = 4, blob = []\<rparr>
                  \<lparr>tag = KM_TAG_DIGEST_OLD, f = 4, blob = []\<rparr>"
    using operator_eq_dispatch
            [of "\<lparr>tag = KM_TAG_DIGEST_OLD, f = 4, blob = []\<rparr>"
                "\<lparr>tag = KM_TAG_DIGEST_OLD, f = 4, blob = []\<rparr>",
             THEN conjunct2, THEN conjunct2, THEN conjunct2, THEN mp, OF out] .
  have ne: "Tag_NONCE \<noteq> Tag_CALLER_NONCE" by (simp add: Tag_defs TagType_defs)
  have a: "\<not> operator_eq \<lparr>tag = Tag_NONCE, f = 0, blob = [1, 2, 3]\<rparr>
                  \<lparr>tag = Tag_CALLER_NONCE, f = 0, blob = [1, 2, 3]\<rparr>"
    using operator_eq_dispatch [of "\<lparr>tag = Tag_NONCE, f = 0, blob = [1, 2, 3]\<rparr>"
            "\<lparr>tag = Tag_CALLER_NONCE, f = 0, blob = [1, 2, 3]\<rparr>"] ne
    by simp
  have b: "operator_eq \<lparr>tag = Tag_CALLER_NONCE, f = 1, blob = []\<rparr>
               \<lparr>tag = Tag_CALLER_NONCE, f = 77, blob = [5]\<rparr>"
    using operator_eq_dispatch [of "\<lparr>tag = Tag_CALLER_NONCE, f = 1, blob = []\<rparr>"
            "\<lparr>tag = Tag_CALLER_NONCE, f = 77, blob = [5]\<rparr>"]
      mem_CALLER_NONCE type_CALLER_NONCE
    by simp
  have ty: "typeFromTag Tag_NONCE \<in> {TagType_UINT, TagType_UINT_REP, TagType_ULONG,
       TagType_ULONG_REP, TagType_DATE, TagType_BYTES, TagType_BIGNUM, TagType_ENUM,
       TagType_ENUM_REP}"
    by (simp add: type_NONCE)
  have blob_eq: "operator_eq \<lparr>tag = Tag_NONCE, f = u, blob = bs\<rparr>
                             \<lparr>tag = Tag_NONCE, f = u', blob = bs'\<rparr> \<longleftrightarrow> bs = bs'"
    for u u' bs bs'
  proof -
    let ?A = "\<lparr>tag = Tag_NONCE, f = u, blob = bs\<rparr>"
    let ?B = "\<lparr>tag = Tag_NONCE, f = u', blob = bs'\<rparr>"
    have prem: "tag ?A = tag ?B \<and> tag ?A \<in> set Tag_enumerators \<and>
       typeFromTag (tag ?A) \<in> {TagType_UINT, TagType_UINT_REP, TagType_ULONG,
         TagType_ULONG_REP, TagType_DATE, TagType_BYTES, TagType_BIGNUM, TagType_ENUM,
         TagType_ENUM_REP}"
      using mem_NONCE ty by simp
    from operator_eq_dispatch
           [of ?A ?B, THEN conjunct2, THEN conjunct2, THEN conjunct1, THEN mp, OF prem]
    obtain fld where "accessTagValue (Tag2TypedTag (tag ?A)) = Some fld"
      and eq: "operator_eq ?A ?B \<longleftrightarrow> load fld ?A = load fld ?B"
      by blast
    then have "fld = field_blob" using accessTagValue_NONCE by simp
    with eq show ?thesis by simp
  qed
  have c: "operator_eq \<lparr>tag = Tag_NONCE, f = 0, blob = [1, 2, 3]\<rparr>
               \<lparr>tag = Tag_NONCE, f = 9, blob = [1, 2, 3]\<rparr>"
    by (simp add: blob_eq)
  have d: "\<not> operator_eq \<lparr>tag = Tag_NONCE, f = 0, blob = [1, 2, 3]\<rparr>
                  \<lparr>tag = Tag_NONCE, f = 0, blob = [1, 2, 4]\<rparr>"
    by (simp add: blob_eq)
  show ?thesis
    using ne mem_CALLER_NONCE type_CALLER_NONCE mem_NONCE type_NONCE a b c d out e
    by (intro conjI)
qed

lemma mem_KEY_SIZE: "Tag_KEY_SIZE \<in> set Tag_enumerators"
  by (simp add: Tag_enumerators_def)

lemma switch_Some:
  "t \<in> set Tag_enumerators \<Longrightarrow> \<exists>c. switch t switch_cases = Some c"
  using switch_enumerators [of t] by auto

text \<open>
  Claim C5, as amended. For every \<open>KeyParameter\<close> whose tag is an enumerator of \<open>Tag\<close>,
  \<open>a == a\<close> is true. The claim as stated speaks of every \<open>KeyParameter\<close>: a parameter
  whose tag has no case label, such as the header's own \<open>KM_TAG_KEY_TYPE\<close>, leaves the
  switch and is not equal to itself.
\<close>

theorem operator_eq_reflexive:
  "tag a \<in> set Tag_enumerators \<longrightarrow> operator_eq a a"
proof
  assume "tag a \<in> set Tag_enumerators"
  then obtain c where "switch (tag a) switch_cases = Some c"
    using switch_Some by blast
  then show "operator_eq a a"
    by (cases c) (simp_all add: operator_eq_def)
qed

theorem operator_eq_reflexive_witness:
  "tag \<lparr>tag = Tag_KEY_SIZE, f = 2048, blob = []\<rparr> \<in> set Tag_enumerators \<and>
   operator_eq \<lparr>tag = Tag_KEY_SIZE, f = 2048, blob = []\<rparr>
               \<lparr>tag = Tag_KEY_SIZE, f = 2048, blob = []\<rparr>"
  using operator_eq_reflexive [of "\<lparr>tag = Tag_KEY_SIZE, f = 2048, blob = []\<rparr>"] mem_KEY_SIZE
  by simp

theorem operator_eq_reflexive_counterexample:
  "\<not> operator_eq \<lparr>tag = KM_TAG_KEY_TYPE, f = 1, blob = []\<rparr>
                  \<lparr>tag = KM_TAG_KEY_TYPE, f = 1, blob = []\<rparr>"
  by (simp add: operator_eq_def switch_cases_def KM_TAG_KEY_TYPE_def Tag_defs TagType_defs)

text \<open>
  Claim C10. Two parameters whose tag is \<open>Tag::INVALID\<close> are equal whatever their
  payloads hold: the label \<open>Tag::INVALID\<close> is in the group that returns true, and the
  category of \<open>Tag::INVALID\<close> is \<open>TagType::INVALID\<close>, not \<open>TagType::BOOL\<close>.
\<close>

theorem Tag_INVALID_compares_equal:
  "(tag a = Tag_INVALID \<and> tag b = Tag_INVALID \<longrightarrow> operator_eq a b) \<and>
   switch Tag_INVALID switch_cases = Some return_true \<and>
   typeFromTag Tag_INVALID = TagType_INVALID \<and>
   typeFromTag Tag_INVALID \<noteq> TagType_BOOL"
proof -
  have sw: "switch Tag_INVALID switch_cases = Some return_true"
    by (simp add: switch_cases_def)
  have "typeFromTag Tag_INVALID = TagType_INVALID" "typeFromTag Tag_INVALID \<noteq> TagType_BOOL"
    by (simp_all add: typeFromTag_def Tag_defs TagType_defs)
  then show ?thesis using sw operator_eq_true [of a b] by simp
qed

theorem Tag_INVALID_compares_equal_witness:
  "tag \<lparr>tag = Tag_INVALID, f = 1, blob = [1]\<rparr> = Tag_INVALID \<and>
   tag \<lparr>tag = Tag_INVALID, f = 2, blob = []\<rparr> = Tag_INVALID \<and>
   operator_eq \<lparr>tag = Tag_INVALID, f = 1, blob = [1]\<rparr> \<lparr>tag = Tag_INVALID, f = 2, blob = []\<rparr>"
  using Tag_INVALID_compares_equal
          [of "\<lparr>tag = Tag_INVALID, f = 1, blob = [1]\<rparr>" "\<lparr>tag = Tag_INVALID, f = 2, blob = []\<rparr>"]
  by simp

subsection \<open>Coverage of the switch\<close>

text \<open>
  Claim C6. Every enumerator of \<open>Tag\<close> is a case label of exactly one group of the
  switch, so for such a tag control does not reach the \<open>return false\<close> after the switch;
  a tag that is no enumerator has no label, and the parameters are not equal.
\<close>

theorem switch_covers_enumeration:
  "(\<forall>t \<in> set Tag_enumerators.
      length (filter (\<lambda>(labels, c). t \<in> set labels) switch_cases) = 1 \<and>
      switch t switch_cases \<noteq> None) \<and>
   (\<forall>a b. tag a \<notin> set Tag_enumerators \<longrightarrow>
      switch (tag a) switch_cases = None \<and> \<not> operator_eq a b)"
  using Tag_enumerators_switch switch_enumerators operator_eq_fallthrough
  by blast

theorem switch_covers_enumeration_witness:
  "Tag_KEY_SIZE \<in> set Tag_enumerators \<and>
   length (filter (\<lambda>(labels, c). Tag_KEY_SIZE \<in> set labels) switch_cases) = 1 \<and>
   switch Tag_KEY_SIZE switch_cases \<noteq> None \<and>
   tag \<lparr>tag = KM_TAG_FBE_ICE, f = 1, blob = []\<rparr> \<notin> set Tag_enumerators \<and>
   switch (tag \<lparr>tag = KM_TAG_FBE_ICE, f = 1, blob = []\<rparr>) switch_cases = None \<and>
   \<not> operator_eq \<lparr>tag = KM_TAG_FBE_ICE, f = 1, blob = []\<rparr>
                  \<lparr>tag = KM_TAG_FBE_ICE, f = 1, blob = []\<rparr>"
proof -
  have out: "tag \<lparr>tag = KM_TAG_FBE_ICE, f = 1, blob = []\<rparr> \<notin> set Tag_enumerators"
    by (simp add: Tag_enumerators_def KM_TAG_FBE_ICE_def Tag_defs TagType_defs)
  note C = switch_covers_enumeration
  from C [THEN conjunct1, rule_format, OF mem_KEY_SIZE]
  have a: "length (filter (\<lambda>(labels, c). Tag_KEY_SIZE \<in> set labels) switch_cases) = 1 \<and>
      switch Tag_KEY_SIZE switch_cases \<noteq> None" .
  from C [THEN conjunct2, rule_format, OF out]
  have b: "switch (tag \<lparr>tag = KM_TAG_FBE_ICE, f = 1, blob = []\<rparr>) switch_cases = None \<and>
     \<not> operator_eq \<lparr>tag = KM_TAG_FBE_ICE, f = 1, blob = []\<rparr>
                  \<lparr>tag = KM_TAG_FBE_ICE, f = 1, blob = []\<rparr>" .
  show ?thesis using mem_KEY_SIZE out a b by (intro conjI) (elim conjE, assumption)+
qed

subsection \<open>Categories and typed tags\<close>

text \<open>
  Claim C7. For every enumerator of \<open>Tag\<close> (the declared tags among them),
  \<open>typeFromTag\<close> is an enumerator of \<open>TagType\<close>, the declaration of its typed tag
  passes the constructor's \<open>static_assert\<close>, and the derived category is the only
  \<open>tag_type\<close> for which the constructor compiles.
\<close>

theorem typeFromTag_total_TypedTag_constructible:
  "(\<forall>t \<in> set Tag_enumerators.
      typeFromTag t \<in> set TagType_enumerators \<and>
      DECLARE_TYPED_TAG t = Inr (TypedTag (typeFromTag t) t) \<and>
      (\<forall>tt. (\<exists>x. TypedTag_ctor tt t = Inr x) \<longleftrightarrow> tt = typeFromTag t)) \<and>
   set all_tags_t \<subseteq> set declared_tags \<and> set declared_tags \<subseteq> set Tag_enumerators"
  using Tag_enumerators_types DECLARE_TYPED_TAG_ok declared_enumerated all_tags_declared
  by (auto simp add: TypedTag_ctor_def)

theorem typeFromTag_total_TypedTag_constructible_witness:
  "Tag_KEY_SIZE \<in> set Tag_enumerators \<and>
   typeFromTag Tag_KEY_SIZE \<in> set TagType_enumerators \<and>
   DECLARE_TYPED_TAG Tag_KEY_SIZE = Inr (TypedTag (typeFromTag Tag_KEY_SIZE) Tag_KEY_SIZE) \<and>
   typeFromTag Tag_KEY_SIZE = TagType_UINT"
proof -
  have ty: "typeFromTag Tag_KEY_SIZE = TagType_UINT"
    by (simp add: typeFromTag_def Tag_defs TagType_defs)
  from typeFromTag_total_TypedTag_constructible
         [THEN conjunct1, rule_format, OF mem_KEY_SIZE]
  show ?thesis using mem_KEY_SIZE ty by simp
qed

subsection \<open>What construction leaves in the union\<close>

lemma Authorization_Inr_value:
  assumes "tag_type ttag \<noteq> TagType_BOOL" "Authorization t0 u0 ttag args = Inr p"
  shows "\<exists>a fld v. args = [a] \<and> accessTagValue ttag = Some fld \<and>
           implicit_conversion (decltype fld) a = Some v \<and>
           p = store v \<lparr>tag = operator_Tag ttag, f = 0, blob = []\<rparr>"
proof -
  from assms obtain a where args: "args = [a]"
    by (cases args; cases "tl args") (auto simp add: Authorization_def split: if_splits)
  from assms args obtain fld where fld: "accessTagValue ttag = Some fld"
    by (cases "accessTagValue ttag") (auto simp add: Authorization_def TypedTag2ValueType_def)
  from assms args fld obtain v where v: "implicit_conversion (decltype fld) a = Some v"
    by (cases "implicit_conversion (decltype fld) a")
       (auto simp add: Authorization_def TypedTag2ValueType_def is_convertible_def)
  show ?thesis
    using assms args fld v Authorization_value [OF assms(1) fld v, of t0 u0] by simp
qed

lemma and_not_mask_64: "(w :: 64 word) AND NOT (mask 64) = 0"
  by (rule bit_word_eqI) (auto simp add: bit_simps)

lemma store_zero_outside:
  "f (store v \<lparr>tag = t, f = 0, blob = []\<rparr>) AND NOT (mask (bits_in_union (type_of v))) = 0"
  by (cases v) (simp_all add: overwrite_outside and_not_mask_64)

lemma store_zero_blob:
  "type_of v \<noteq> hidl_vec_uint8_t \<Longrightarrow> blob (store v \<lparr>tag = t, f = 0, blob = []\<rparr>) = []"
  "type_of v = hidl_vec_uint8_t \<Longrightarrow> f (store v \<lparr>tag = t, f = 0, blob = []\<rparr>) = 0"
  by (cases v; simp)+

lemma overwrite_32_256: "overwrite 32 256 0 = 256"
  by (simp add: overwrite_def mask_eq_exp_minus_1)

lemma Authorization_KEY_SIZE_256:
  "Authorization 7 9 (Tag2TypedTag Tag_KEY_SIZE) [V_uint32 256] =
     Inr \<lparr>tag = Tag_KEY_SIZE, f = 256, blob = []\<rparr>"
  using Authorization_value [OF tag_type_KEY_SIZE accessTagValue_KEY_SIZE,
          of "V_uint32 256" "V_uint32 256" 7 9]
  by (simp add: Tag2TypedTag_def overwrite_32_256)

lemma overwrite_8_ones: "overwrite 8 1 0xFFFFFFFFFFFFFFFF = 0xFFFFFFFFFFFFFF01"
  by (simp add: overwrite_def mask_eq_exp_minus_1)

text \<open>
  Claim C3, as amended. For every \<open>KeyParameter\<close> that \<open>Authorization\<close> produces for a
  tag that is not boolean, the union is cleared before the selected member is written:
  every bit of the union outside the selected member is zero, the byte vector is empty
  unless it is the selected member, the whole union is zero when the byte vector is the
  selected member, and the result is the same for any indeterminate content of the new
  \<open>KeyParameter\<close>. The claim as stated fails in two places. The members of the union
  share their storage, so another member reads the bytes of the selected one, not zero:
  after \<open>Authorization(TAG_KEY_SIZE, 256)\<close> the member \<open>f.longInteger\<close> reads 256. And
  the overload for boolean tags writes \<open>f.boolValue\<close> without clearing the union
  first, so the other bytes keep what the stack held; the amended claim says nothing
  about boolean tags.
\<close>

theorem Authorization_clears_union:
  "tag_type ttag \<noteq> TagType_BOOL \<and> Authorization t0 u0 ttag args = Inr p \<longrightarrow>
     (\<exists>fld. accessTagValue ttag = Some fld \<and>
        f p AND NOT (mask (bits_in_union (decltype fld))) = 0 \<and>
        (decltype fld \<noteq> hidl_vec_uint8_t \<longrightarrow> blob p = []) \<and>
        (decltype fld = hidl_vec_uint8_t \<longrightarrow> f p = 0) \<and>
        (\<forall>t1 u1. Authorization t1 u1 ttag args = Inr p))"
proof
  assume h: "tag_type ttag \<noteq> TagType_BOOL \<and> Authorization t0 u0 ttag args = Inr p"
  then obtain a fld v where args: "args = [a]" and fld: "accessTagValue ttag = Some fld"
    and v: "implicit_conversion (decltype fld) a = Some v"
    and p: "p = store v \<lparr>tag = operator_Tag ttag, f = 0, blob = []\<rparr>"
    using Authorization_Inr_value by blast
  have ty: "type_of v = decltype fld" using v by (rule type_of_conversion)
  have 1: "f p AND NOT (mask (bits_in_union (decltype fld))) = 0"
    using store_zero_outside [of v] p ty by simp
  have 2: "decltype fld \<noteq> hidl_vec_uint8_t \<longrightarrow> blob p = []"
    using store_zero_blob(1) [of v] p ty by simp
  have 3: "decltype fld = hidl_vec_uint8_t \<longrightarrow> f p = 0"
    using store_zero_blob(2) [of v] p ty by simp
  have 4: "\<forall>t1 u1. Authorization t1 u1 ttag args = Inr p"
    using h args fld v p by (simp add: Authorization_value)
  show "\<exists>fld. accessTagValue ttag = Some fld \<and>
        f p AND NOT (mask (bits_in_union (decltype fld))) = 0 \<and>
        (decltype fld \<noteq> hidl_vec_uint8_t \<longrightarrow> blob p = []) \<and>
        (decltype fld = hidl_vec_uint8_t \<longrightarrow> f p = 0) \<and>
        (\<forall>t1 u1. Authorization t1 u1 ttag args = Inr p)"
    using fld 1 2 3 4 by blast
qed

theorem Authorization_clears_union_witness:
  "tag_type (Tag2TypedTag Tag_KEY_SIZE) \<noteq> TagType_BOOL \<and>
   Authorization 7 9 (Tag2TypedTag Tag_KEY_SIZE) [V_uint32 256] =
     Inr \<lparr>tag = Tag_KEY_SIZE, f = 256, blob = []\<rparr> \<and>
   (\<exists>fld. accessTagValue (Tag2TypedTag Tag_KEY_SIZE) = Some fld \<and>
        f \<lparr>tag = Tag_KEY_SIZE, f = 256, blob = []\<rparr>
          AND NOT (mask (bits_in_union (decltype fld))) = 0 \<and>
        (\<forall>t1 u1. Authorization t1 u1 (Tag2TypedTag Tag_KEY_SIZE) [V_uint32 256] =
           Inr \<lparr>tag = Tag_KEY_SIZE, f = 256, blob = []\<rparr>))"
proof -
  have prem: "tag_type (Tag2TypedTag Tag_KEY_SIZE) \<noteq> TagType_BOOL \<and>
     Authorization 7 9 (Tag2TypedTag Tag_KEY_SIZE) [V_uint32 256] =
       Inr \<lparr>tag = Tag_KEY_SIZE, f = 256, blob = []\<rparr>"
    using tag_type_KEY_SIZE Authorization_KEY_SIZE_256 by simp
  from Authorization_clears_union [THEN mp, OF prem]
  show ?thesis using prem by blast
qed

theorem Authorization_clears_union_counterexample:
  "Authorization 7 9 (Tag2TypedTag Tag_KEY_SIZE) [V_uint32 256] =
     Inr \<lparr>tag = Tag_KEY_SIZE, f = 256, blob = []\<rparr> \<and>
   accessTagValue (Tag2TypedTag Tag_KEY_SIZE) = Some f_integer \<and>
   load f_longInteger \<lparr>tag = Tag_KEY_SIZE, f = 256, blob = []\<rparr> = V_uint64 256 \<and>
   load f_longInteger \<lparr>tag = Tag_KEY_SIZE, f = 256, blob = []\<rparr> \<noteq> V_uint64 0 \<and>
   Authorization 7 0xFFFFFFFFFFFFFFFF (Tag2TypedTag Tag_CALLER_NONCE) [] =
     Inr \<lparr>tag = Tag_CALLER_NONCE, f = 0xFFFFFFFFFFFFFF01, blob = []\<rparr> \<and>
   accessTagValue (Tag2TypedTag Tag_CALLER_NONCE) = Some f_boolValue \<and>
   load f_integer \<lparr>tag = Tag_CALLER_NONCE, f = 0xFFFFFFFFFFFFFF01, blob = []\<rparr>
     = V_uint32 0xFFFFFF01 \<and>
   load f_integer \<lparr>tag = Tag_CALLER_NONCE, f = 0xFFFFFFFFFFFFFF01, blob = []\<rparr>
     \<noteq> V_uint32 0"
  using Authorization_KEY_SIZE_256 accessTagValue_KEY_SIZE
    Authorization_BOOL [OF tag_type_CALLER_NONCE, of 7 "0xFFFFFFFFFFFFFFFF"]
    accessTagValue_BOOL [OF tag_type_CALLER_NONCE]
  by (simp add: Tag2TypedTag_def overwrite_8_ones)

end
